theory Spec2Isabelle
  imports Main
begin

section \<open>The bounded-retry generation helpers of data\_curate/utils.py\<close>

text \<open>
  The module holds two functions, \<open>generate_subtopics\<close> and \<open>generate_macro_topics\<close>.
  Each runs \<open>for _ in range(n_retries)\<close> around a \<open>try\<close> block that asks the generator
  object for a response, indexes the response with \<open>[0]\<close>, and hands that element to
  \<open>generator.convert_response_to_yaml_list\<close>. A \<open>YamlConversionError\<close> is caught,
  reported with \<open>print\<close> and the loop goes on; a success leaves the loop with \<open>break\<close>;
  anything else leaves the function as an exception.
\<close>

subsection \<open>Exceptions\<close>

text \<open>
  \<open>YamlConversionError\<close> carries the text that \<open>str(e)\<close> yields. \<open>IndexError\<close> is what
  Python raises for \<open>llm_response[0]\<close> on an empty list. \<open>OtherError\<close> stands for every
  other exception class the generator may raise.
\<close>

datatype exn = is_YamlConversionError: YamlConversionError string | IndexError | OtherError string

subsection \<open>The generator object\<close>

text \<open>
  \<open>NemotronGenerator\<close> is imported from \<open>nemo_curator\<close>; the module only calls three of
  its methods. The object is a parameter of the model: a record of the three methods, each
  a function of the arguments and of the generator's state \<open>'g\<close> (the object together with
  the language model behind it), returning either an exception or a value, and the state
  after the call. The configuration dictionary \<open>model_kwargs\<close> is only forwarded, never
  inspected, so its type \<open>'kw\<close> is left open. The conversion method takes \<open>model_kwargs\<close> as
  an optional keyword: \<open>None\<close> when the caller does not pass it.
\<close>

record ('g, 'kw) NemotronGenerator =
  gen_generate_subtopics ::
    "string \<Rightarrow> 'kw \<Rightarrow> string \<Rightarrow> int \<Rightarrow> string \<Rightarrow> 'g \<Rightarrow> (exn + string list) \<times> 'g"
  gen_generate_macro_topics ::
    "int \<Rightarrow> string \<Rightarrow> 'kw \<Rightarrow> string \<Rightarrow> 'g \<Rightarrow> (exn + string list) \<times> 'g"
  gen_convert_response_to_yaml_list ::
    "string \<Rightarrow> string \<Rightarrow> 'kw option \<Rightarrow> 'g \<Rightarrow> (exn + string list) \<times> 'g"

text \<open>
  Every call made on the generator is recorded with the arguments it was given, in the
  order of the keyword arguments at the call site.
\<close>

datatype 'kw call =
    GenerateSubtopics string 'kw string int string
  | GenerateMacroTopics int string 'kw string
  | ConvertResponseToYamlList string string "'kw option"

subsection \<open>The world a call runs in\<close>

text \<open>
  \<open>gen_state\<close> is the generator's state, \<open>stdout\<close> the lines written by \<open>print\<close> (one entry
  per call of \<open>print\<close>), \<open>calls\<close> the generator methods invoked so far.
\<close>

record ('g, 'kw) world =
  gen_state :: 'g
  stdout :: "string list"
  calls :: "'kw call list"

text \<open>The line \<open>print(f"Hit: {e}, Retrying...")\<close> writes.\<close>

definition retry_message :: "string \<Rightarrow> string" where
  "retry_message e = ''Hit: '' @ e @ '', Retrying...''"

subsection \<open>generate\_subtopics\<close>

text \<open>
  The body of the \<open>try\<close> block (lines 54 to 65): the generation call, the index \<open>[0]\<close>,
  the conversion call with \<open>llm_response[0]\<close> and \<open>model\<close> only. It returns the exception
  raised or the converted list, the generator's state, and the calls it made.
\<close>

definition subtopics_try ::
  "('g, 'kw) NemotronGenerator \<Rightarrow> string \<Rightarrow> 'kw \<Rightarrow> string \<Rightarrow> int \<Rightarrow> string \<Rightarrow> 'g
     \<Rightarrow> (exn + string list) \<times> 'g \<times> 'kw call list" where
  "subtopics_try generator model model_kwargs macro_topic n_subtopics prompt_template g =
     (case gen_generate_subtopics generator model model_kwargs macro_topic n_subtopics
             prompt_template g of
        (Inl e, g1) \<Rightarrow>
          (Inl e, g1,
           [GenerateSubtopics model model_kwargs macro_topic n_subtopics prompt_template])
      | (Inr llm_response, g1) \<Rightarrow>
          (case llm_response of
             [] \<Rightarrow>
               (Inl IndexError, g1,
                [GenerateSubtopics model model_kwargs macro_topic n_subtopics prompt_template])
           | r # _ \<Rightarrow>
               (case gen_convert_response_to_yaml_list generator r model None g1 of
                  (res, g2) \<Rightarrow>
                    (res, g2,
                     [GenerateSubtopics model model_kwargs macro_topic n_subtopics
                        prompt_template,
                      ConvertResponseToYamlList r model None]))))"

text \<open>
  The \<open>for\<close> loop (lines 51 to 71) with the number of iterations left and the variable
  \<open>subtopics\<close>: a converted list is assigned to \<open>subtopics\<close> and \<open>break\<close> leads to
  \<open>return subtopics\<close>; a \<open>YamlConversionError\<close> is printed and the next iteration starts;
  any other exception leaves the function.
\<close>

fun subtopics_loop ::
  "('g, 'kw) NemotronGenerator \<Rightarrow> string \<Rightarrow> 'kw \<Rightarrow> string \<Rightarrow> int \<Rightarrow> string \<Rightarrow> nat
     \<Rightarrow> string list \<Rightarrow> ('g, 'kw) world \<Rightarrow> (exn + string list) \<times> ('g, 'kw) world" where
  "subtopics_loop generator model model_kwargs macro_topic n_subtopics prompt_template 0
       subtopics w = (Inr subtopics, w)"
| "subtopics_loop generator model model_kwargs macro_topic n_subtopics prompt_template (Suc k)
       subtopics w =
     (case subtopics_try generator model model_kwargs macro_topic n_subtopics prompt_template
             (gen_state w) of
        (res, g', cs) \<Rightarrow>
          (case res of
             Inr ys \<Rightarrow> (Inr ys, w\<lparr>gen_state := g', calls := calls w @ cs\<rparr>)
           | Inl e \<Rightarrow>
               (case e of
                  YamlConversionError msg \<Rightarrow>
                    subtopics_loop generator model model_kwargs macro_topic n_subtopics
                      prompt_template k subtopics
                      (w\<lparr>gen_state := g', calls := calls w @ cs,
                         stdout := stdout w @ [retry_message msg]\<rparr>)
                | _ \<Rightarrow> (Inl e, w\<lparr>gen_state := g', calls := calls w @ cs\<rparr>))))"

text \<open>
  The function: \<open>subtopics = []\<close>, then the loop over \<open>range(n_retries)\<close>, which is empty
  for \<open>n_retries \<le> 0\<close>. The default \<open>n_retries = 5\<close> of the signature is a value the
  caller passes; the model takes \<open>n_retries\<close> as an argument.
\<close>

definition generate_subtopics ::
  "('g, 'kw) NemotronGenerator \<Rightarrow> string \<Rightarrow> 'kw \<Rightarrow> string \<Rightarrow> int \<Rightarrow> string \<Rightarrow> int
     \<Rightarrow> ('g, 'kw) world \<Rightarrow> (exn + string list) \<times> ('g, 'kw) world" where
  "generate_subtopics generator model model_kwargs macro_topic n_subtopics prompt_template
       n_retries w =
     subtopics_loop generator model model_kwargs macro_topic n_subtopics prompt_template
       (nat n_retries) [] w"

subsection \<open>generate\_macro\_topics\<close>

text \<open>
  The body of the \<open>try\<close> block (lines 116 to 126): here the conversion call is given
  \<open>model_kwargs\<close> as well. The defaults of the signature, \<open>n_retries = 5\<close> and the
  imported \<open>DEFAULT_MACRO_TOPICS_PROMPT_TEMPLATE\<close> for \<open>prompt_template\<close>, are again
  arguments of the model.
\<close>

definition macro_topics_try ::
  "('g, 'kw) NemotronGenerator \<Rightarrow> string \<Rightarrow> 'kw \<Rightarrow> int \<Rightarrow> string \<Rightarrow> 'g
     \<Rightarrow> (exn + string list) \<times> 'g \<times> 'kw call list" where
  "macro_topics_try generator model model_kwargs n_macro_topics prompt_template g =
     (case gen_generate_macro_topics generator n_macro_topics model model_kwargs
             prompt_template g of
        (Inl e, g1) \<Rightarrow>
          (Inl e, g1, [GenerateMacroTopics n_macro_topics model model_kwargs prompt_template])
      | (Inr llm_response, g1) \<Rightarrow>
          (case llm_response of
             [] \<Rightarrow>
               (Inl IndexError, g1,
                [GenerateMacroTopics n_macro_topics model model_kwargs prompt_template])
           | r # _ \<Rightarrow>
               (case gen_convert_response_to_yaml_list generator r model (Some model_kwargs)
                       g1 of
                  (res, g2) \<Rightarrow>
                    (res, g2,
                     [GenerateMacroTopics n_macro_topics model model_kwargs prompt_template,
                      ConvertResponseToYamlList r model (Some model_kwargs)]))))"

fun macro_topics_loop ::
  "('g, 'kw) NemotronGenerator \<Rightarrow> string \<Rightarrow> 'kw \<Rightarrow> int \<Rightarrow> string \<Rightarrow> nat
     \<Rightarrow> string list \<Rightarrow> ('g, 'kw) world \<Rightarrow> (exn + string list) \<times> ('g, 'kw) world" where
  "macro_topics_loop generator model model_kwargs n_macro_topics prompt_template 0
       macro_topics w = (Inr macro_topics, w)"
| "macro_topics_loop generator model model_kwargs n_macro_topics prompt_template (Suc k)
       macro_topics w =
     (case macro_topics_try generator model model_kwargs n_macro_topics prompt_template
             (gen_state w) of
        (res, g', cs) \<Rightarrow>
          (case res of
             Inr ys \<Rightarrow> (Inr ys, w\<lparr>gen_state := g', calls := calls w @ cs\<rparr>)
           | Inl e \<Rightarrow>
               (case e of
                  YamlConversionError msg \<Rightarrow>
                    macro_topics_loop generator model model_kwargs n_macro_topics
                      prompt_template k macro_topics
                      (w\<lparr>gen_state := g', calls := calls w @ cs,
                         stdout := stdout w @ [retry_message msg]\<rparr>)
                | _ \<Rightarrow> (Inl e, w\<lparr>gen_state := g', calls := calls w @ cs\<rparr>))))"

definition generate_macro_topics ::
  "('g, 'kw) NemotronGenerator \<Rightarrow> string \<Rightarrow> 'kw \<Rightarrow> int \<Rightarrow> string \<Rightarrow> int
     \<Rightarrow> ('g, 'kw) world \<Rightarrow> (exn + string list) \<times> ('g, 'kw) world" where
  "generate_macro_topics generator model model_kwargs n_macro_topics prompt_template
       n_retries w =
     macro_topics_loop generator model model_kwargs n_macro_topics prompt_template
       (nat n_retries) [] w"

subsection \<open>A generator cut down to the first item of each response\<close>

text \<open>
  \<open>first_item_only G\<close> behaves as \<open>G\<close>, except that every response collection a
  generation call returns is cut down to its first element. It is used to state that the
  functions read nothing but element \<open>0\<close> of a response.
\<close>

definition keep_first :: "(exn + string list) \<times> 'g \<Rightarrow> (exn + string list) \<times> 'g" where
  "keep_first out =
     (case out of
        (Inl e, g) \<Rightarrow> (Inl e, g)
      | (Inr llm_response, g) \<Rightarrow> (Inr (take 1 llm_response), g))"

definition first_item_only ::
  "('g, 'kw) NemotronGenerator \<Rightarrow> ('g, 'kw) NemotronGenerator" where
  "first_item_only G =
     G\<lparr>gen_generate_subtopics := (\<lambda>model kw topic n pt g.
          keep_first (gen_generate_subtopics G model kw topic n pt g)),
       gen_generate_macro_topics := (\<lambda>n model kw pt g.
          keep_first (gen_generate_macro_topics G n model kw pt g))\<rparr>"

subsection \<open>Generators for concrete runs\<close>

text \<open>
  A generator that follows a script: its state counts the generation calls and the
  conversion calls made so far, the \<open>i\<close>-th generation call yields the \<open>i\<close>-th entry of
  \<open>gens\<close>, the \<open>j\<close>-th conversion call the \<open>j\<close>-th entry of \<open>convs\<close>, and a call beyond the
  script raises.
\<close>

definition scripted_generator ::
  "(exn + string list) list \<Rightarrow> (exn + string list) list
     \<Rightarrow> (nat \<times> nat, (string \<times> string) list) NemotronGenerator" where
  "scripted_generator gens convs =
     \<lparr>gen_generate_subtopics = (\<lambda>model model_kwargs macro_topic n_subtopics prompt_template s.
        (if fst s < length gens then gens ! fst s else Inl (OtherError ''script exhausted''),
         (Suc (fst s), snd s))),
      gen_generate_macro_topics = (\<lambda>n_macro_topics model model_kwargs prompt_template s.
        (if fst s < length gens then gens ! fst s else Inl (OtherError ''script exhausted''),
         (Suc (fst s), snd s))),
      gen_convert_response_to_yaml_list = (\<lambda>llm_response model model_kwargs s.
        (if snd s < length convs then convs ! snd s else Inl (OtherError ''script exhausted''),
         (fst s, Suc (snd s))))\<rparr>"

definition sample_kwargs :: "(string \<times> string) list" where
  "sample_kwargs = [(''temperature'', ''0.2'')]"

definition fresh_world :: "(nat \<times> nat, (string \<times> string) list) world" where
  "fresh_world = \<lparr>gen_state = (0, 0), stdout = [], calls = []\<rparr>"

text \<open>Two conversions fail, the third succeeds.\<close>

definition two_bad_then_good ::
  "(nat \<times> nat, (string \<times> string) list) NemotronGenerator" where
  "two_bad_then_good = scripted_generator
       [Inr [''r0'', ''x0''], Inr [''r1''], Inr [''r2'', ''x2'']]
       [Inl (YamlConversionError ''bad0''), Inl (YamlConversionError ''bad1''),
        Inr [''a'', ''b'']]"

text \<open>
  The second generation call raises another exception; the second generation call returns
  an empty response; the generation call itself raises \<open>YamlConversionError\<close> twice.
\<close>

definition error_on_second_attempt ::
  "(nat \<times> nat, (string \<times> string) list) NemotronGenerator" where
  "error_on_second_attempt = scripted_generator
       [Inr [''r0''], Inl (OtherError ''connection refused''), Inr [''r2'']]
       [Inl (YamlConversionError ''bad0''), Inr [''a'']]"

definition empty_second_response ::
  "(nat \<times> nat, (string \<times> string) list) NemotronGenerator" where
  "empty_second_response = scripted_generator
       [Inr [''r0''], Inr [], Inr [''r2'']]
       [Inl (YamlConversionError ''bad0''), Inr [''a'']]"


text \<open>
  A conversion that returns three topics, and one that returns none.
\<close>

definition three_topics ::
  "(nat \<times> nat, (string \<times> string) list) NemotronGenerator" where
  "three_topics = scripted_generator [Inr [''r0'']] [Inr [''a'', ''b'', ''c'']]"

definition no_topics ::
  "(nat \<times> nat, (string \<times> string) list) NemotronGenerator" where
  "no_topics = scripted_generator [Inr [''r0'']] [Inr []]"

text \<open>The second conversion call raises an exception of another class.\<close>

definition conversion_breaks_on_second ::
  "(nat \<times> nat, (string \<times> string) list) NemotronGenerator" where
  "conversion_breaks_on_second = scripted_generator
       [Inr [''r0'', ''x0''], Inr [''r1'', ''x1'']]
       [Inl (YamlConversionError ''bad0''), Inl (OtherError ''boom'')]"

text \<open>
  A generator whose conversion reads the response it is given: it converts \<open>''- a''\<close> and
  rejects everything else. Its first response has the good item in second place, its later
  responses have it in first place.
\<close>

definition head_reader ::
  "(nat \<times> nat, (string \<times> string) list) NemotronGenerator" where
  "head_reader =
     \<lparr>gen_generate_subtopics = (\<lambda>model model_kwargs macro_topic n_subtopics prompt_template s.
        (Inr (if fst s = 0 then [''garbage'', ''- a''] else [''- a'', ''garbage'']),
         (Suc (fst s), snd s))),
      gen_generate_macro_topics = (\<lambda>n_macro_topics model model_kwargs prompt_template s.
        (Inr (if fst s = 0 then [''garbage'', ''- a''] else [''- a'', ''garbage'']),
         (Suc (fst s), snd s))),
      gen_convert_response_to_yaml_list = (\<lambda>llm_response model model_kwargs s.
        (if llm_response = ''- a'' then Inr [''a'']
         else Inl (YamlConversionError (''cannot parse '' @ llm_response)),
         (fst s, Suc (snd s))))\<rparr>"

text \<open>
  A generator whose conversion reports what it was given: the response, the model, and
  one of two tags, the first when \<open>model_kwargs\<close> is not passed, the second when it is.
\<close>

definition tagging_generator ::
  "string \<Rightarrow> string \<Rightarrow> (nat \<times> nat, (string \<times> string) list) NemotronGenerator" where
  "tagging_generator without_kwargs with_kwargs =
     \<lparr>gen_generate_subtopics = (\<lambda>model model_kwargs macro_topic n_subtopics prompt_template s.
        (Inr [''first'', ''second''], (Suc (fst s), snd s))),
      gen_generate_macro_topics = (\<lambda>n_macro_topics model model_kwargs prompt_template s.
        (Inr [''first'', ''second''], (Suc (fst s), snd s))),
      gen_convert_response_to_yaml_list = (\<lambda>llm_response model model_kwargs s.
        (Inr [llm_response, model,
              (case model_kwargs of None \<Rightarrow> without_kwargs | Some _ \<Rightarrow> with_kwargs)],
         (fst s, Suc (snd s))))\<rparr>"

section \<open>Properties\<close>

subsection \<open>One iteration of the loop, and a run of failed iterations\<close>

lemma subtopics_loop_step_retry:
  assumes "subtopics_try G model kw macro n pt (gen_state w)
             = (Inl (YamlConversionError msg), g', cs)"
  shows "subtopics_loop G model kw macro n pt (Suc j) acc w =
         subtopics_loop G model kw macro n pt j acc
           (w\<lparr>gen_state := g', calls := calls w @ cs,
              stdout := stdout w @ [retry_message msg]\<rparr>)"
  using assms by simp

lemma subtopics_loop_step_return:
  assumes "subtopics_try G model kw macro n pt (gen_state w) = (Inr ys, g', cs)"
  shows "subtopics_loop G model kw macro n pt (Suc j) acc w =
         (Inr ys, w\<lparr>gen_state := g', calls := calls w @ cs\<rparr>)"
  using assms by simp

lemma subtopics_loop_step_raise:
  assumes "subtopics_try G model kw macro n pt (gen_state w) = (Inl e, g', cs)"
      and "\<not> is_YamlConversionError e"
  shows "subtopics_loop G model kw macro n pt (Suc j) acc w =
         (Inl e, w\<lparr>gen_state := g', calls := calls w @ cs\<rparr>)"
  using assms by (cases e) simp_all

lemma subtopics_loop_failures:
  assumes "\<forall>i<k. subtopics_try G model kw macro n pt (g i)
                   = (Inl (YamlConversionError (m i)), g (Suc i), cs i)"
      and "g 0 = gen_state w"
  shows "subtopics_loop G model kw macro n pt (k + j) acc w =
         subtopics_loop G model kw macro n pt j acc
           (w\<lparr>gen_state := g k, calls := calls w @ concat (map cs [0..<k]),
              stdout := stdout w @ map (\<lambda>i. retry_message (m i)) [0..<k]\<rparr>)"
  using assms
proof (induction k arbitrary: j)
  case 0
  then show ?case by simp
next
  case (Suc k)
  let ?wk = "w\<lparr>gen_state := g k, calls := calls w @ concat (map cs [0..<k]),
              stdout := stdout w @ map (\<lambda>i. retry_message (m i)) [0..<k]\<rparr>"
  have "subtopics_loop G model kw macro n pt (Suc k + j) acc w
        = subtopics_loop G model kw macro n pt (k + Suc j) acc w" by simp
  also have "\<dots> = subtopics_loop G model kw macro n pt (Suc j) acc ?wk"
    using Suc.IH [of "Suc j"] Suc.prems by simp
  also have "\<dots> = subtopics_loop G model kw macro n pt j acc
           (?wk\<lparr>gen_state := g (Suc k), calls := calls ?wk @ cs k,
                 stdout := stdout ?wk @ [retry_message (m k)]\<rparr>)"
    using Suc.prems(1) by (intro subtopics_loop_step_retry) simp
  finally show ?case by simp
qed

lemma macro_topics_loop_step_retry:
  assumes "macro_topics_try G model kw n pt (gen_state w)
             = (Inl (YamlConversionError msg), g', cs)"
  shows "macro_topics_loop G model kw n pt (Suc j) acc w =
         macro_topics_loop G model kw n pt j acc
           (w\<lparr>gen_state := g', calls := calls w @ cs,
              stdout := stdout w @ [retry_message msg]\<rparr>)"
  using assms by simp

lemma macro_topics_loop_step_return:
  assumes "macro_topics_try G model kw n pt (gen_state w) = (Inr ys, g', cs)"
  shows "macro_topics_loop G model kw n pt (Suc j) acc w =
         (Inr ys, w\<lparr>gen_state := g', calls := calls w @ cs\<rparr>)"
  using assms by simp

lemma macro_topics_loop_step_raise:
  assumes "macro_topics_try G model kw n pt (gen_state w) = (Inl e, g', cs)"
      and "\<not> is_YamlConversionError e"
  shows "macro_topics_loop G model kw n pt (Suc j) acc w =
         (Inl e, w\<lparr>gen_state := g', calls := calls w @ cs\<rparr>)"
  using assms by (cases e) simp_all

lemma macro_topics_loop_failures:
  assumes "\<forall>i<k. macro_topics_try G model kw n pt (g i)
                   = (Inl (YamlConversionError (m i)), g (Suc i), cs i)"
      and "g 0 = gen_state w"
  shows "macro_topics_loop G model kw n pt (k + j) acc w =
         macro_topics_loop G model kw n pt j acc
           (w\<lparr>gen_state := g k, calls := calls w @ concat (map cs [0..<k]),
              stdout := stdout w @ map (\<lambda>i. retry_message (m i)) [0..<k]\<rparr>)"
  using assms
proof (induction k arbitrary: j)
  case 0
  then show ?case by simp
next
  case (Suc k)
  let ?wk = "w\<lparr>gen_state := g k, calls := calls w @ concat (map cs [0..<k]),
              stdout := stdout w @ map (\<lambda>i. retry_message (m i)) [0..<k]\<rparr>"
  have "macro_topics_loop G model kw n pt (Suc k + j) acc w
        = macro_topics_loop G model kw n pt (k + Suc j) acc w" by simp
  also have "\<dots> = macro_topics_loop G model kw n pt (Suc j) acc ?wk"
    using Suc.IH [of "Suc j"] Suc.prems by simp
  also have "\<dots> = macro_topics_loop G model kw n pt j acc
           (?wk\<lparr>gen_state := g (Suc k), calls := calls ?wk @ cs k,
                 stdout := stdout ?wk @ [retry_message (m k)]\<rparr>)"
    using Suc.prems(1) by (intro macro_topics_loop_step_retry) simp
  finally show ?case by simp
qed

lemma subtopics_after_failures:
  assumes "\<forall>i<k. subtopics_try G model kw topic n pt (g i)
                   = (Inl (YamlConversionError (m i)), g (Suc i), cs i)"
      and "g 0 = gen_state w" and "k \<le> nat N"
  shows "generate_subtopics G model kw topic n pt N w =
         subtopics_loop G model kw topic n pt (nat N - k) []
           (w\<lparr>gen_state := g k, calls := calls w @ concat (map cs [0..<k]),
              stdout := stdout w @ map (\<lambda>i. retry_message (m i)) [0..<k]\<rparr>)"
proof -
  have "nat N = k + (nat N - k)"
    using assms(3) by simp
  then have "generate_subtopics G model kw topic n pt N w =
             subtopics_loop G model kw topic n pt (k + (nat N - k)) [] w"
    by (simp add: generate_subtopics_def)
  also have "\<dots> = subtopics_loop G model kw topic n pt (nat N - k) []
           (w\<lparr>gen_state := g k, calls := calls w @ concat (map cs [0..<k]),
              stdout := stdout w @ map (\<lambda>i. retry_message (m i)) [0..<k]\<rparr>)"
    using assms(1,2) by (rule subtopics_loop_failures)
  finally show ?thesis .
qed

lemma subtopics_success_after_failures:
  assumes k: "k < nat N" and g0: "g 0 = gen_state w"
    and f: "\<forall>i<k. gen_generate_subtopics G model kw topic n pt (g i)
                   = (Inr (r i # rest i), h i)
                 \<and> gen_convert_response_to_yaml_list G (r i) model None (h i)
                   = (Inl (YamlConversionError (m i)), g (Suc i))"
    and gk: "gen_generate_subtopics G model kw topic n pt (g k) = (Inr (r k # rest k), h k)"
    and ck: "gen_convert_response_to_yaml_list G (r k) model None (h k) = (Inr ys, g (Suc k))"
  shows "generate_subtopics G model kw topic n pt N w
          = (Inr ys,
             w\<lparr>gen_state := g (Suc k),
               calls := calls w @ concat (map (\<lambda>i.
                 [GenerateSubtopics model kw topic n pt,
                  ConvertResponseToYamlList (r i) model None]) [0..<Suc k]),
               stdout := stdout w @ map (\<lambda>i. retry_message (m i)) [0..<k]\<rparr>)"
proof -
  let ?cs = "\<lambda>i. [GenerateSubtopics model kw topic n pt,
                  ConvertResponseToYamlList (r i) model None]"
  let ?wk = "w\<lparr>gen_state := g k, calls := calls w @ concat (map ?cs [0..<k]),
              stdout := stdout w @ map (\<lambda>i. retry_message (m i)) [0..<k]\<rparr>"
  have left: "nat N - k = Suc (nat N - Suc k)"
    using k by simp
  have fails: "\<forall>i<k. subtopics_try G model kw topic n pt (g i)
                 = (Inl (YamlConversionError (m i)), g (Suc i), ?cs i)"
    using f by (simp add: subtopics_try_def)
  have last: "subtopics_try G model kw topic n pt (gen_state ?wk)
                 = (Inr ys, g (Suc k), ?cs k)"
    using gk ck by (simp add: subtopics_try_def)
  have "generate_subtopics G model kw topic n pt N w
        = subtopics_loop G model kw topic n pt (Suc (nat N - Suc k)) [] ?wk"
    using subtopics_after_failures [OF fails g0] k left by simp
  also have "\<dots> = (Inr ys, ?wk\<lparr>gen_state := g (Suc k), calls := calls ?wk @ ?cs k\<rparr>)"
    using last by (rule subtopics_loop_step_return)
  finally show ?thesis
    by simp
qed

lemma macro_topics_after_failures:
  assumes "\<forall>i<k. macro_topics_try G model kw n pt (g i)
                   = (Inl (YamlConversionError (m i)), g (Suc i), cs i)"
      and "g 0 = gen_state w" and "k \<le> nat N"
  shows "generate_macro_topics G model kw n pt N w =
         macro_topics_loop G model kw n pt (nat N - k) []
           (w\<lparr>gen_state := g k, calls := calls w @ concat (map cs [0..<k]),
              stdout := stdout w @ map (\<lambda>i. retry_message (m i)) [0..<k]\<rparr>)"
proof -
  have "nat N = k + (nat N - k)"
    using assms(3) by simp
  then have "generate_macro_topics G model kw n pt N w =
             macro_topics_loop G model kw n pt (k + (nat N - k)) [] w"
    by (simp add: generate_macro_topics_def)
  also have "\<dots> = macro_topics_loop G model kw n pt (nat N - k) []
           (w\<lparr>gen_state := g k, calls := calls w @ concat (map cs [0..<k]),
              stdout := stdout w @ map (\<lambda>i. retry_message (m i)) [0..<k]\<rparr>)"
    using assms(1,2) by (rule macro_topics_loop_failures)
  finally show ?thesis .
qed

lemma macro_topics_success_after_failures:
  assumes k: "k < nat N" and g0: "g 0 = gen_state w"
    and f: "\<forall>i<k. gen_generate_macro_topics G n model kw pt (g i)
                   = (Inr (r i # rest i), h i)
                 \<and> gen_convert_response_to_yaml_list G (r i) model (Some kw) (h i)
                   = (Inl (YamlConversionError (m i)), g (Suc i))"
    and gk: "gen_generate_macro_topics G n model kw pt (g k) = (Inr (r k # rest k), h k)"
    and ck: "gen_convert_response_to_yaml_list G (r k) model (Some kw) (h k) = (Inr ys, g (Suc k))"
  shows "generate_macro_topics G model kw n pt N w
          = (Inr ys,
             w\<lparr>gen_state := g (Suc k),
               calls := calls w @ concat (map (\<lambda>i.
                 [GenerateMacroTopics n model kw pt,
                  ConvertResponseToYamlList (r i) model (Some kw)]) [0..<Suc k]),
               stdout := stdout w @ map (\<lambda>i. retry_message (m i)) [0..<k]\<rparr>)"
proof -
  let ?cs = "\<lambda>i. [GenerateMacroTopics n model kw pt,
                  ConvertResponseToYamlList (r i) model (Some kw)]"
  let ?wk = "w\<lparr>gen_state := g k, calls := calls w @ concat (map ?cs [0..<k]),
              stdout := stdout w @ map (\<lambda>i. retry_message (m i)) [0..<k]\<rparr>"
  have left: "nat N - k = Suc (nat N - Suc k)"
    using k by simp
  have fails: "\<forall>i<k. macro_topics_try G model kw n pt (g i)
                 = (Inl (YamlConversionError (m i)), g (Suc i), ?cs i)"
    using f by (simp add: macro_topics_try_def)
  have last: "macro_topics_try G model kw n pt (gen_state ?wk)
                 = (Inr ys, g (Suc k), ?cs k)"
    using gk ck by (simp add: macro_topics_try_def)
  have "generate_macro_topics G model kw n pt N w
        = macro_topics_loop G model kw n pt (Suc (nat N - Suc k)) [] ?wk"
    using macro_topics_after_failures [OF fails g0] k left by simp
  also have "\<dots> = (Inr ys, ?wk\<lparr>gen_state := g (Suc k), calls := calls ?wk @ ?cs k\<rparr>)"
    using last by (rule macro_topics_loop_step_return)
  finally show ?thesis
    by simp
qed

subsection \<open>Runs that end in exhaustion or in an exception\<close>

lemma subtopics_exhausted:
  assumes "g 0 = gen_state w"
      and "(\<forall>i<nat N. gen_generate_subtopics G model kw topic n pt (g i)
                   = (Inr (r i # rest i), h i)
                 \<and> gen_convert_response_to_yaml_list G (r i) model None (h i)
                   = (Inl (YamlConversionError (m i)), g (Suc i)))"
  shows "generate_subtopics G model kw topic n pt N w
          = (Inr [],
             w\<lparr>gen_state := g (nat N),
               calls := calls w @ concat (map (\<lambda>i. [GenerateSubtopics model kw topic n pt,
                  ConvertResponseToYamlList (r i) model None]) [0..<nat N]),
               stdout := stdout w @ map (\<lambda>i. retry_message (m i)) [0..<nat N]\<rparr>)"
proof -
  let ?cs = "\<lambda>i. [GenerateSubtopics model kw topic n pt,
                  ConvertResponseToYamlList (r i) model None]"
  have fails: "\<forall>i<nat N. subtopics_try G model kw topic n pt (g i)
                 = (Inl (YamlConversionError (m i)), g (Suc i), ?cs i)"
    using assms(2) by (simp add: subtopics_try_def)
  show ?thesis
    using subtopics_after_failures [OF fails assms(1)] by simp
qed

lemma macro_topics_exhausted:
  assumes "g 0 = gen_state w"
      and "(\<forall>i<nat N. gen_generate_macro_topics G n model kw pt (g i)
                   = (Inr (r i # rest i), h i)
                 \<and> gen_convert_response_to_yaml_list G (r i) model (Some kw) (h i)
                   = (Inl (YamlConversionError (m i)), g (Suc i)))"
  shows "generate_macro_topics G model kw n pt N w
          = (Inr [],
             w\<lparr>gen_state := g (nat N),
               calls := calls w @ concat (map (\<lambda>i. [GenerateMacroTopics n model kw pt,
                  ConvertResponseToYamlList (r i) model (Some kw)]) [0..<nat N]),
               stdout := stdout w @ map (\<lambda>i. retry_message (m i)) [0..<nat N]\<rparr>)"
proof -
  let ?cs = "\<lambda>i. [GenerateMacroTopics n model kw pt,
                  ConvertResponseToYamlList (r i) model (Some kw)]"
  have fails: "\<forall>i<nat N. macro_topics_try G model kw n pt (g i)
                 = (Inl (YamlConversionError (m i)), g (Suc i), ?cs i)"
    using assms(2) by (simp add: macro_topics_try_def)
  show ?thesis
    using macro_topics_after_failures [OF fails assms(1)] by simp
qed

lemma subtopics_other_error:
  assumes "k < nat N"
      and "g 0 = gen_state w"
      and "(\<forall>i<k. subtopics_try G model kw topic n pt (g i)
                   = (Inl (YamlConversionError (m i)), g (Suc i), cs i))"
      and "subtopics_try G model kw topic n pt (g k) = (Inl e, g', c)"
      and "\<not> is_YamlConversionError e"
  shows "generate_subtopics G model kw topic n pt N w
          = (Inl e,
             w\<lparr>gen_state := g',
               calls := calls w @ concat (map cs [0..<k]) @ c,
               stdout := stdout w @ map (\<lambda>i. retry_message (m i)) [0..<k]\<rparr>)"
proof -
  let ?wk = "w\<lparr>gen_state := g k, calls := calls w @ concat (map cs [0..<k]),
              stdout := stdout w @ map (\<lambda>i. retry_message (m i)) [0..<k]\<rparr>"
  have left: "nat N - k = Suc (nat N - Suc k)"
    using assms(1) by simp
  have last: "subtopics_try G model kw topic n pt (gen_state ?wk) = (Inl e, g', c)"
    using assms(4) by simp
  have "generate_subtopics G model kw topic n pt N w
        = subtopics_loop G model kw topic n pt (Suc (nat N - Suc k)) [] ?wk"
    using subtopics_after_failures [OF assms(3,2)] assms(1) left by simp
  also have "\<dots> = (Inl e, ?wk\<lparr>gen_state := g', calls := calls ?wk @ c\<rparr>)"
    using last assms(5) by (rule subtopics_loop_step_raise)
  finally show ?thesis
    by simp
qed

lemma macro_topics_other_error:
  assumes "k < nat N"
      and "g 0 = gen_state w"
      and "(\<forall>i<k. macro_topics_try G model kw n pt (g i)
                   = (Inl (YamlConversionError (m i)), g (Suc i), cs i))"
      and "macro_topics_try G model kw n pt (g k) = (Inl e, g', c)"
      and "\<not> is_YamlConversionError e"
  shows "generate_macro_topics G model kw n pt N w
          = (Inl e,
             w\<lparr>gen_state := g',
               calls := calls w @ concat (map cs [0..<k]) @ c,
               stdout := stdout w @ map (\<lambda>i. retry_message (m i)) [0..<k]\<rparr>)"
proof -
  let ?wk = "w\<lparr>gen_state := g k, calls := calls w @ concat (map cs [0..<k]),
              stdout := stdout w @ map (\<lambda>i. retry_message (m i)) [0..<k]\<rparr>"
  have left: "nat N - k = Suc (nat N - Suc k)"
    using assms(1) by simp
  have last: "macro_topics_try G model kw n pt (gen_state ?wk) = (Inl e, g', c)"
    using assms(4) by simp
  have "generate_macro_topics G model kw n pt N w
        = macro_topics_loop G model kw n pt (Suc (nat N - Suc k)) [] ?wk"
    using macro_topics_after_failures [OF assms(3,2)] assms(1) left by simp
  also have "\<dots> = (Inl e, ?wk\<lparr>gen_state := g', calls := calls ?wk @ c\<rparr>)"
    using last assms(5) by (rule macro_topics_loop_step_raise)
  finally show ?thesis
    by simp
qed

lemma subtopics_empty_response:
  assumes "k < nat N"
      and "g 0 = gen_state w"
      and "(\<forall>i<k. subtopics_try G model kw topic n pt (g i)
                   = (Inl (YamlConversionError (m i)), g (Suc i), cs i))"
      and "gen_generate_subtopics G model kw topic n pt (g k) = (Inr [], g')"
  shows "generate_subtopics G model kw topic n pt N w
          = (Inl IndexError,
             w\<lparr>gen_state := g',
               calls := calls w @ concat (map cs [0..<k]) @ [GenerateSubtopics model kw topic n pt],
               stdout := stdout w @ map (\<lambda>i. retry_message (m i)) [0..<k]\<rparr>)"
proof -
  have "subtopics_try G model kw topic n pt (g k)
          = (Inl IndexError, g', [GenerateSubtopics model kw topic n pt])"
    using assms(4) by (simp add: subtopics_try_def)
  then show ?thesis
    using assms(1,2,3) by (intro subtopics_other_error) simp_all
qed

lemma macro_topics_empty_response:
  assumes "k < nat N"
      and "g 0 = gen_state w"
      and "(\<forall>i<k. macro_topics_try G model kw n pt (g i)
                   = (Inl (YamlConversionError (m i)), g (Suc i), cs i))"
      and "gen_generate_macro_topics G n model kw pt (g k) = (Inr [], g')"
  shows "generate_macro_topics G model kw n pt N w
          = (Inl IndexError,
             w\<lparr>gen_state := g',
               calls := calls w @ concat (map cs [0..<k]) @ [GenerateMacroTopics n model kw pt],
               stdout := stdout w @ map (\<lambda>i. retry_message (m i)) [0..<k]\<rparr>)"
proof -
  have "macro_topics_try G model kw n pt (g k)
          = (Inl IndexError, g', [GenerateMacroTopics n model kw pt])"
    using assms(4) by (simp add: macro_topics_try_def)
  then show ?thesis
    using assms(1,2,3) by (intro macro_topics_other_error) simp_all
qed





subsection \<open>Where a returned list comes from\<close>

lemma subtopics_try_returns:
  assumes "subtopics_try G model kw topic n pt g = (Inr ys, g', cs)"
  shows "\<exists>r g1. gen_convert_response_to_yaml_list G r model None g1 = (Inr ys, g')"
  using assms
  by (auto simp: subtopics_try_def split: prod.splits sum.splits list.splits)

lemma subtopics_loop_returns:
  assumes "subtopics_loop G model kw topic n pt j acc w = (Inr ys, w')"
  shows "(\<exists>r g1. gen_convert_response_to_yaml_list G r model None g1
                   = (Inr ys, gen_state w'))
         \<or> (ys = acc \<and> length (stdout w') = length (stdout w) + j)"
  using assms
proof (induction j arbitrary: w)
  case 0
  then show ?case by auto
next
  case (Suc j)
  obtain res g' cs where t:
    "subtopics_try G model kw topic n pt (gen_state w) = (res, g', cs)"
    by (cases "subtopics_try G model kw topic n pt (gen_state w)") auto
  show ?case
  proof (cases res)
    case (Inr zs)
    with t Suc.prems have "zs = ys" and "gen_state w' = g'"
      by auto
    with t Inr have "subtopics_try G model kw topic n pt (gen_state w)
                       = (Inr ys, gen_state w', cs)"
      by simp
    from subtopics_try_returns [OF this] show ?thesis
      by simp
  next
    case (Inl e)
    show ?thesis
    proof (cases e)
      case (YamlConversionError msg)
      let ?wa = "w\<lparr>gen_state := g', calls := calls w @ cs,
                   stdout := stdout w @ [retry_message msg]\<rparr>"
      have "subtopics_loop G model kw topic n pt j acc ?wa = (Inr ys, w')"
        using t Inl YamlConversionError Suc.prems by simp
      from Suc.IH [OF this] show ?thesis
        by auto
    next
      case IndexError
      with t Inl Suc.prems show ?thesis by simp
    next
      case (OtherError x)
      with t Inl Suc.prems show ?thesis by simp
    qed
  qed
qed

lemma macro_topics_try_returns:
  assumes "macro_topics_try G model kw n pt g = (Inr ys, g', cs)"
  shows "\<exists>r g1. gen_convert_response_to_yaml_list G r model (Some kw) g1 = (Inr ys, g')"
  using assms
  by (auto simp: macro_topics_try_def split: prod.splits sum.splits list.splits)

lemma macro_topics_loop_returns:
  assumes "macro_topics_loop G model kw n pt j acc w = (Inr ys, w')"
  shows "(\<exists>r g1. gen_convert_response_to_yaml_list G r model (Some kw) g1
                   = (Inr ys, gen_state w'))
         \<or> (ys = acc \<and> length (stdout w') = length (stdout w) + j)"
  using assms
proof (induction j arbitrary: w)
  case 0
  then show ?case by auto
next
  case (Suc j)
  obtain res g' cs where t:
    "macro_topics_try G model kw n pt (gen_state w) = (res, g', cs)"
    by (cases "macro_topics_try G model kw n pt (gen_state w)") auto
  show ?case
  proof (cases res)
    case (Inr zs)
    with t Suc.prems have "zs = ys" and "gen_state w' = g'"
      by auto
    with t Inr have "macro_topics_try G model kw n pt (gen_state w)
                       = (Inr ys, gen_state w', cs)"
      by simp
    from macro_topics_try_returns [OF this] show ?thesis
      by simp
  next
    case (Inl e)
    show ?thesis
    proof (cases e)
      case (YamlConversionError msg)
      let ?wa = "w\<lparr>gen_state := g', calls := calls w @ cs,
                   stdout := stdout w @ [retry_message msg]\<rparr>"
      have "macro_topics_loop G model kw n pt j acc ?wa = (Inr ys, w')"
        using t Inl YamlConversionError Suc.prems by simp
      from Suc.IH [OF this] show ?thesis
        by auto
    next
      case IndexError
      with t Inl Suc.prems show ?thesis by simp
    next
      case (OtherError x)
      with t Inl Suc.prems show ?thesis by simp
    qed
  qed
qed

subsection \<open>Only the first item of a response is read\<close>

lemma subtopics_try_first_item_only:
  "subtopics_try (first_item_only G) model kw topic n pt g
     = subtopics_try G model kw topic n pt g"
  by (simp add: subtopics_try_def first_item_only_def keep_first_def
        split: prod.splits sum.splits list.splits)

lemma subtopics_loop_first_item_only:
  "subtopics_loop (first_item_only G) model kw topic n pt j acc w
     = subtopics_loop G model kw topic n pt j acc w"
  by (induction j arbitrary: w)
     (simp_all add: subtopics_try_first_item_only split: prod.splits sum.splits exn.splits)

lemma macro_topics_try_first_item_only:
  "macro_topics_try (first_item_only G) model kw n pt g
     = macro_topics_try G model kw n pt g"
  by (simp add: macro_topics_try_def first_item_only_def keep_first_def
        split: prod.splits sum.splits list.splits)

lemma macro_topics_loop_first_item_only:
  "macro_topics_loop (first_item_only G) model kw n pt j acc w
     = macro_topics_loop G model kw n pt j acc w"
  by (induction j arbitrary: w)
     (simp_all add: macro_topics_try_first_item_only split: prod.splits sum.splits exn.splits)

lemma generate_subtopics_returns:
  assumes "generate_subtopics G model kw topic n pt N w = (Inr ys, w')"
  shows "(\<exists>r g1. gen_convert_response_to_yaml_list G r model None g1
                   = (Inr ys, gen_state w'))
         \<or> (ys = [] \<and> length (stdout w') = length (stdout w) + nat N)"
  using subtopics_loop_returns [OF assms [unfolded generate_subtopics_def]] by simp

lemma generate_macro_topics_returns:
  assumes "generate_macro_topics G model kw n pt N w = (Inr ys, w')"
  shows "(\<exists>r g1. gen_convert_response_to_yaml_list G r model (Some kw) g1
                   = (Inr ys, gen_state w'))
         \<or> (ys = [] \<and> length (stdout w') = length (stdout w) + nat N)"
  using macro_topics_loop_returns [OF assms [unfolded generate_macro_topics_def]] by simp

subsection \<open>An exception of another class, raised by either call\<close>

lemma subtopics_generation_raises:
  assumes "k < nat N"
      and "g 0 = gen_state w"
      and "(\<forall>i<k. subtopics_try G model kw topic n pt (g i)
                   = (Inl (YamlConversionError (m i)), g (Suc i), cs i))"
      and "gen_generate_subtopics G model kw topic n pt (g k) = (Inl e, g')"
      and "\<not> is_YamlConversionError e"
  shows "generate_subtopics G model kw topic n pt N w
          = (Inl e,
             w\<lparr>gen_state := g',
               calls := calls w @ concat (map cs [0..<k])
                 @ [GenerateSubtopics model kw topic n pt],
               stdout := stdout w @ map (\<lambda>i. retry_message (m i)) [0..<k]\<rparr>)"
proof -
  have "subtopics_try G model kw topic n pt (g k)
          = (Inl e, g', [GenerateSubtopics model kw topic n pt])"
    using assms(4) by (simp add: subtopics_try_def)
  then show ?thesis
    using assms(1,2,3,5) by (intro subtopics_other_error) simp_all
qed

lemma macro_topics_generation_raises:
  assumes "k < nat N"
      and "g 0 = gen_state w"
      and "(\<forall>i<k. macro_topics_try G model kw n pt (g i)
                   = (Inl (YamlConversionError (m i)), g (Suc i), cs i))"
      and "gen_generate_macro_topics G n model kw pt (g k) = (Inl e, g')"
      and "\<not> is_YamlConversionError e"
  shows "generate_macro_topics G model kw n pt N w
          = (Inl e,
             w\<lparr>gen_state := g',
               calls := calls w @ concat (map cs [0..<k])
                 @ [GenerateMacroTopics n model kw pt],
               stdout := stdout w @ map (\<lambda>i. retry_message (m i)) [0..<k]\<rparr>)"
proof -
  have "macro_topics_try G model kw n pt (g k)
          = (Inl e, g', [GenerateMacroTopics n model kw pt])"
    using assms(4) by (simp add: macro_topics_try_def)
  then show ?thesis
    using assms(1,2,3,5) by (intro macro_topics_other_error) simp_all
qed

lemma subtopics_conversion_raises:
  assumes "k < nat N"
      and "g 0 = gen_state w"
      and "(\<forall>i<k. subtopics_try G model kw topic n pt (g i)
                   = (Inl (YamlConversionError (m i)), g (Suc i), cs i))"
      and "gen_generate_subtopics G model kw topic n pt (g k) = (Inr (r # rest), h)"
      and "gen_convert_response_to_yaml_list G r model None h = (Inl e, g')"
      and "\<not> is_YamlConversionError e"
  shows "generate_subtopics G model kw topic n pt N w
          = (Inl e,
             w\<lparr>gen_state := g',
               calls := calls w @ concat (map cs [0..<k])
                 @ [GenerateSubtopics model kw topic n pt,
                    ConvertResponseToYamlList r model None],
               stdout := stdout w @ map (\<lambda>i. retry_message (m i)) [0..<k]\<rparr>)"
proof -
  have "subtopics_try G model kw topic n pt (g k)
          = (Inl e, g', [GenerateSubtopics model kw topic n pt,
                         ConvertResponseToYamlList r model None])"
    using assms(4,5) by (simp add: subtopics_try_def)
  then show ?thesis
    using assms(1,2,3,6) by (intro subtopics_other_error) simp_all
qed

lemma macro_topics_conversion_raises:
  assumes "k < nat N"
      and "g 0 = gen_state w"
      and "(\<forall>i<k. macro_topics_try G model kw n pt (g i)
                   = (Inl (YamlConversionError (m i)), g (Suc i), cs i))"
      and "gen_generate_macro_topics G n model kw pt (g k) = (Inr (r # rest), h)"
      and "gen_convert_response_to_yaml_list G r model (Some kw) h = (Inl e, g')"
      and "\<not> is_YamlConversionError e"
  shows "generate_macro_topics G model kw n pt N w
          = (Inl e,
             w\<lparr>gen_state := g',
               calls := calls w @ concat (map cs [0..<k])
                 @ [GenerateMacroTopics n model kw pt,
                    ConvertResponseToYamlList r model (Some kw)],
               stdout := stdout w @ map (\<lambda>i. retry_message (m i)) [0..<k]\<rparr>)"
proof -
  have "macro_topics_try G model kw n pt (g k)
          = (Inl e, g', [GenerateMacroTopics n model kw pt,
                         ConvertResponseToYamlList r model (Some kw)])"
    using assms(4,5) by (simp add: macro_topics_try_def)
  then show ?thesis
    using assms(1,2,3,6) by (intro macro_topics_other_error) simp_all
qed

subsection \<open>Element 0 of every response is the one converted\<close>

lemma subtopics_returns_after_failures:
  assumes "k < nat N" and "g 0 = gen_state w"
      and "\<forall>i<k. subtopics_try G model kw topic n pt (g i)
                   = (Inl (YamlConversionError (m i)), g (Suc i), cs i)"
      and "subtopics_try G model kw topic n pt (g k) = (Inr ys, g', c)"
  shows "generate_subtopics G model kw topic n pt N w
          = (Inr ys,
             w\<lparr>gen_state := g',
               calls := calls w @ concat (map cs [0..<k]) @ c,
               stdout := stdout w @ map (\<lambda>i. retry_message (m i)) [0..<k]\<rparr>)"
proof -
  let ?wk = "w\<lparr>gen_state := g k, calls := calls w @ concat (map cs [0..<k]),
              stdout := stdout w @ map (\<lambda>i. retry_message (m i)) [0..<k]\<rparr>"
  have left: "nat N - k = Suc (nat N - Suc k)"
    using assms(1) by simp
  have last: "subtopics_try G model kw topic n pt (gen_state ?wk) = (Inr ys, g', c)"
    using assms(4) by simp
  have "generate_subtopics G model kw topic n pt N w
        = subtopics_loop G model kw topic n pt (Suc (nat N - Suc k)) [] ?wk"
    using subtopics_after_failures [OF assms(3,2)] assms(1) left by simp
  also have "\<dots> = (Inr ys, ?wk\<lparr>gen_state := g', calls := calls ?wk @ c\<rparr>)"
    using last by (rule subtopics_loop_step_return)
  finally show ?thesis
    by simp
qed

lemma subtopics_try_item_0:
  assumes "gen_generate_subtopics G model kw topic n pt g = (Inr resp, h)"
      and "resp \<noteq> []"
      and "gen_convert_response_to_yaml_list G (resp ! 0) model None h = (out, g')"
  shows "subtopics_try G model kw topic n pt g
           = (out, g', [GenerateSubtopics model kw topic n pt,
                        ConvertResponseToYamlList (resp ! 0) model None])"
  using assms by (cases resp) (simp_all add: subtopics_try_def)

lemma macro_topics_returns_after_failures:
  assumes "k < nat N" and "g 0 = gen_state w"
      and "\<forall>i<k. macro_topics_try G model kw n pt (g i)
                   = (Inl (YamlConversionError (m i)), g (Suc i), cs i)"
      and "macro_topics_try G model kw n pt (g k) = (Inr ys, g', c)"
  shows "generate_macro_topics G model kw n pt N w
          = (Inr ys,
             w\<lparr>gen_state := g',
               calls := calls w @ concat (map cs [0..<k]) @ c,
               stdout := stdout w @ map (\<lambda>i. retry_message (m i)) [0..<k]\<rparr>)"
proof -
  let ?wk = "w\<lparr>gen_state := g k, calls := calls w @ concat (map cs [0..<k]),
              stdout := stdout w @ map (\<lambda>i. retry_message (m i)) [0..<k]\<rparr>"
  have left: "nat N - k = Suc (nat N - Suc k)"
    using assms(1) by simp
  have last: "macro_topics_try G model kw n pt (gen_state ?wk) = (Inr ys, g', c)"
    using assms(4) by simp
  have "generate_macro_topics G model kw n pt N w
        = macro_topics_loop G model kw n pt (Suc (nat N - Suc k)) [] ?wk"
    using macro_topics_after_failures [OF assms(3,2)] assms(1) left by simp
  also have "\<dots> = (Inr ys, ?wk\<lparr>gen_state := g', calls := calls ?wk @ c\<rparr>)"
    using last by (rule macro_topics_loop_step_return)
  finally show ?thesis
    by simp
qed

lemma macro_topics_try_item_0:
  assumes "gen_generate_macro_topics G n model kw pt g = (Inr resp, h)"
      and "resp \<noteq> []"
      and "gen_convert_response_to_yaml_list G (resp ! 0) model (Some kw) h = (out, g')"
  shows "macro_topics_try G model kw n pt g
           = (out, g', [GenerateMacroTopics n model kw pt,
                        ConvertResponseToYamlList (resp ! 0) model (Some kw)])"
  using assms by (cases resp) (simp_all add: macro_topics_try_def)

lemma subtopics_item_0_converted:
  assumes "k < nat N"
      and "g 0 = gen_state w"
      and "(\<forall>i<k. gen_generate_subtopics G model kw topic n pt (g i) = (Inr (resp i), h i)
                 \<and> resp i \<noteq> []
                 \<and> gen_convert_response_to_yaml_list G (resp i ! 0) model None (h i)
                   = (Inl (YamlConversionError (m i)), g (Suc i)))"
      and "gen_generate_subtopics G model kw topic n pt (g k) = (Inr (resp k), h k)"
      and "resp k \<noteq> []"
      and "gen_convert_response_to_yaml_list G (resp k ! 0) model None (h k) = (out, g (Suc k))"
      and "(\<forall>msg. out \<noteq> Inl (YamlConversionError msg))"
  shows "generate_subtopics G model kw topic n pt N w
          = (out,
             w\<lparr>gen_state := g (Suc k),
               calls := calls w @ concat (map (\<lambda>i. [GenerateSubtopics model kw topic n pt,
                  ConvertResponseToYamlList (resp i ! 0) model None]) [0..<Suc k]),
               stdout := stdout w @ map (\<lambda>i. retry_message (m i)) [0..<k]\<rparr>)"
proof -
  let ?cs = "\<lambda>i. [GenerateSubtopics model kw topic n pt,
                  ConvertResponseToYamlList (resp i ! 0) model None]"
  have fails: "\<forall>i<k. subtopics_try G model kw topic n pt (g i)
                 = (Inl (YamlConversionError (m i)), g (Suc i), ?cs i)"
  proof (intro allI impI)
    fix i assume "i < k"
    with assms(3) have
      "gen_generate_subtopics G model kw topic n pt (g i) = (Inr (resp i), h i)"
      "resp i \<noteq> []"
      "gen_convert_response_to_yaml_list G (resp i ! 0) model None (h i)
         = (Inl (YamlConversionError (m i)), g (Suc i))"
      by blast+
    then show "subtopics_try G model kw topic n pt (g i)
                 = (Inl (YamlConversionError (m i)), g (Suc i), ?cs i)"
      by (rule subtopics_try_item_0)
  qed
  have last: "subtopics_try G model kw topic n pt (g k) = (out, g (Suc k), ?cs k)"
    using assms(4,5,6) by (rule subtopics_try_item_0)
  show ?thesis
  proof (cases out)
    case (Inr ys)
    with last have "subtopics_try G model kw topic n pt (g k) = (Inr ys, g (Suc k), ?cs k)"
      by simp
    from subtopics_returns_after_failures [OF assms(1,2) fails this] Inr show ?thesis
      by simp
  next
    case (Inl e)
    with assms(7) have e: "\<not> is_YamlConversionError e"
      by (cases e) simp_all
    from Inl last have "subtopics_try G model kw topic n pt (g k) = (Inl e, g (Suc k), ?cs k)"
      by simp
    from subtopics_other_error [OF assms(1,2) fails this e] Inl show ?thesis
      by simp
  qed
qed

lemma macro_topics_item_0_converted:
  assumes "k < nat N"
      and "g 0 = gen_state w"
      and "(\<forall>i<k. gen_generate_macro_topics G n model kw pt (g i) = (Inr (resp i), h i)
                 \<and> resp i \<noteq> []
                 \<and> gen_convert_response_to_yaml_list G (resp i ! 0) model (Some kw) (h i)
                   = (Inl (YamlConversionError (m i)), g (Suc i)))"
      and "gen_generate_macro_topics G n model kw pt (g k) = (Inr (resp k), h k)"
      and "resp k \<noteq> []"
      and "gen_convert_response_to_yaml_list G (resp k ! 0) model (Some kw) (h k) = (out, g (Suc k))"
      and "(\<forall>msg. out \<noteq> Inl (YamlConversionError msg))"
  shows "generate_macro_topics G model kw n pt N w
          = (out,
             w\<lparr>gen_state := g (Suc k),
               calls := calls w @ concat (map (\<lambda>i. [GenerateMacroTopics n model kw pt,
                  ConvertResponseToYamlList (resp i ! 0) model (Some kw)]) [0..<Suc k]),
               stdout := stdout w @ map (\<lambda>i. retry_message (m i)) [0..<k]\<rparr>)"
proof -
  let ?cs = "\<lambda>i. [GenerateMacroTopics n model kw pt,
                  ConvertResponseToYamlList (resp i ! 0) model (Some kw)]"
  have fails: "\<forall>i<k. macro_topics_try G model kw n pt (g i)
                 = (Inl (YamlConversionError (m i)), g (Suc i), ?cs i)"
  proof (intro allI impI)
    fix i assume "i < k"
    with assms(3) have
      "gen_generate_macro_topics G n model kw pt (g i) = (Inr (resp i), h i)"
      "resp i \<noteq> []"
      "gen_convert_response_to_yaml_list G (resp i ! 0) model (Some kw) (h i)
         = (Inl (YamlConversionError (m i)), g (Suc i))"
      by blast+
    then show "macro_topics_try G model kw n pt (g i)
                 = (Inl (YamlConversionError (m i)), g (Suc i), ?cs i)"
      by (rule macro_topics_try_item_0)
  qed
  have last: "macro_topics_try G model kw n pt (g k) = (out, g (Suc k), ?cs k)"
    using assms(4,5,6) by (rule macro_topics_try_item_0)
  show ?thesis
  proof (cases out)
    case (Inr ys)
    with last have "macro_topics_try G model kw n pt (g k) = (Inr ys, g (Suc k), ?cs k)"
      by simp
    from macro_topics_returns_after_failures [OF assms(1,2) fails this] Inr show ?thesis
      by simp
  next
    case (Inl e)
    with assms(7) have e: "\<not> is_YamlConversionError e"
      by (cases e) simp_all
    from Inl last have "macro_topics_try G model kw n pt (g k) = (Inl e, g (Suc k), ?cs k)"
      by simp
    from macro_topics_other_error [OF assms(1,2) fails this e] Inl show ?thesis
      by simp
  qed
qed

subsection \<open>What the conversion call is given\<close>

lemma subtopics_first_attempt:
  assumes "0 < N"
      and "gen_generate_subtopics G model kw topic n pt (gen_state w) = (Inr (r # rest), h)"
      and "gen_convert_response_to_yaml_list G r model None h = (out, g')"
      and "(\<forall>msg. out \<noteq> Inl (YamlConversionError msg))"
  shows "generate_subtopics G model kw topic n pt N w
          = (out,
             w\<lparr>gen_state := g',
               calls := calls w @ [GenerateSubtopics model kw topic n pt,
                                    ConvertResponseToYamlList r model None]\<rparr>)"
proof -
  obtain j where j: "nat N = Suc j"
    using assms(1) by (cases "nat N") auto
  have t: "subtopics_try G model kw topic n pt (gen_state w)
             = (out, g', [GenerateSubtopics model kw topic n pt,
                          ConvertResponseToYamlList r model None])"
    using assms(2,3) by (simp add: subtopics_try_def)
  show ?thesis
  proof (cases out)
    case (Inr ys)
    with t j show ?thesis
      by (simp add: generate_subtopics_def)
  next
    case (Inl e)
    with assms(4) have "\<not> is_YamlConversionError e"
      by (cases e) simp_all
    with t Inl j show ?thesis
      by (cases e) (simp_all add: generate_subtopics_def)
  qed
qed

lemma macro_topics_first_attempt:
  assumes "0 < N"
      and "gen_generate_macro_topics G n model kw pt (gen_state w) = (Inr (r # rest), h)"
      and "gen_convert_response_to_yaml_list G r model (Some kw) h = (out, g')"
      and "(\<forall>msg. out \<noteq> Inl (YamlConversionError msg))"
  shows "generate_macro_topics G model kw n pt N w
          = (out,
             w\<lparr>gen_state := g',
               calls := calls w @ [GenerateMacroTopics n model kw pt,
                                    ConvertResponseToYamlList r model (Some kw)]\<rparr>)"
proof -
  obtain j where j: "nat N = Suc j"
    using assms(1) by (cases "nat N") auto
  have t: "macro_topics_try G model kw n pt (gen_state w)
             = (out, g', [GenerateMacroTopics n model kw pt,
                          ConvertResponseToYamlList r model (Some kw)])"
    using assms(2,3) by (simp add: macro_topics_try_def)
  show ?thesis
  proof (cases out)
    case (Inr ys)
    with t j show ?thesis
      by (simp add: generate_macro_topics_def)
  next
    case (Inl e)
    with assms(4) have "\<not> is_YamlConversionError e"
      by (cases e) simp_all
    with t Inl j show ?thesis
      by (cases e) (simp_all add: generate_macro_topics_def)
  qed
qed

lemma subtopics_try_same_conversion:
  assumes "gen_generate_subtopics H = gen_generate_subtopics G"
      and "\<forall>r g. gen_convert_response_to_yaml_list H r model None g
                   = gen_convert_response_to_yaml_list G r model None g"
  shows "subtopics_try H model kw topic n pt g = subtopics_try G model kw topic n pt g"
  using assms by (simp add: subtopics_try_def split: prod.splits sum.splits list.splits)

lemma subtopics_loop_same_conversion:
  assumes "gen_generate_subtopics H = gen_generate_subtopics G"
      and "\<forall>r g. gen_convert_response_to_yaml_list H r model None g
                   = gen_convert_response_to_yaml_list G r model None g"
  shows "subtopics_loop H model kw topic n pt j acc w
           = subtopics_loop G model kw topic n pt j acc w"
  by (induction j arbitrary: w)
     (simp_all add: subtopics_try_same_conversion [OF assms]
        split: prod.splits sum.splits exn.splits)

lemma macro_topics_try_same_conversion:
  assumes "gen_generate_macro_topics H = gen_generate_macro_topics G"
      and "\<forall>r g. gen_convert_response_to_yaml_list H r model (Some kw) g
                   = gen_convert_response_to_yaml_list G r model (Some kw) g"
  shows "macro_topics_try H model kw n pt g = macro_topics_try G model kw n pt g"
  using assms by (simp add: macro_topics_try_def split: prod.splits sum.splits list.splits)

lemma macro_topics_loop_same_conversion:
  assumes "gen_generate_macro_topics H = gen_generate_macro_topics G"
      and "\<forall>r g. gen_convert_response_to_yaml_list H r model (Some kw) g
                   = gen_convert_response_to_yaml_list G r model (Some kw) g"
  shows "macro_topics_loop H model kw n pt j acc w
           = macro_topics_loop G model kw n pt j acc w"
  by (induction j arbitrary: w)
     (simp_all add: macro_topics_try_same_conversion [OF assms]
        split: prod.splits sum.splits exn.splits)

lemma generate_subtopics_same_conversion:
  assumes "gen_generate_subtopics H = gen_generate_subtopics G"
      and "(\<forall>r g. gen_convert_response_to_yaml_list H r model None g
                   = gen_convert_response_to_yaml_list G r model None g)"
  shows "generate_subtopics H model kw topic n pt N w
          = generate_subtopics G model kw topic n pt N w"
  unfolding generate_subtopics_def using assms by (rule subtopics_loop_same_conversion)

lemma generate_macro_topics_same_conversion:
  assumes "gen_generate_macro_topics H = gen_generate_macro_topics G"
      and "(\<forall>r g. gen_convert_response_to_yaml_list H r model (Some kw) g
                   = gen_convert_response_to_yaml_list G r model (Some kw) g)"
  shows "generate_macro_topics H model kw n pt N w
          = generate_macro_topics G model kw n pt N w"
  unfolding generate_macro_topics_def using assms by (rule macro_topics_loop_same_conversion)

subsection \<open>The claims\<close>

text \<open>
  C1. Let \<open>k < n_retries\<close>. Suppose that on each of the first \<open>k\<close> attempts the generation
  call returns a non-empty response and the conversion call on its first element raises a
  \<open>YamlConversionError\<close>, and that on attempt \<open>k\<close> the conversion call returns \<open>ys\<close>. Then
  the function returns \<open>ys\<close>, and \<open>stdout\<close> has grown by exactly the \<open>k\<close> messages of the
  failed attempts, in order. With \<open>k = 0\<close> this is the case where the first attempt
  succeeds: the result is its converted list and nothing is printed. Here \<open>g i\<close> and \<open>h i\<close>
  are the states of the generator before attempt \<open>i\<close> and between its two calls, \<open>N\<close> is
  \<open>n_retries\<close>, and the first conjunct is about \<open>generate_subtopics\<close>, the second about
  \<open>generate_macro_topics\<close>.
\<close>

theorem retry_until_conversion_succeeds:
  "(k < nat N
    \<and> g 0 = gen_state w
    \<and> (\<forall>i<k. gen_generate_subtopics G model kw topic n pt (g i)
                   = (Inr (r i # rest i), h i)
                 \<and> gen_convert_response_to_yaml_list G (r i) model None (h i)
                   = (Inl (YamlConversionError (m i)), g (Suc i)))
    \<and> gen_generate_subtopics G model kw topic n pt (g k) = (Inr (r k # rest k), h k)
    \<and> gen_convert_response_to_yaml_list G (r k) model None (h k) = (Inr ys, g (Suc k))
    \<longrightarrow> generate_subtopics G model kw topic n pt N w
          = (Inr ys,
             w\<lparr>gen_state := g (Suc k),
               calls := calls w @ concat (map (\<lambda>i. [GenerateSubtopics model kw topic n pt,
                  ConvertResponseToYamlList (r i) model None]) [0..<Suc k]),
               stdout := stdout w @ map (\<lambda>i. retry_message (m i)) [0..<k]\<rparr>))
   \<and> (k < nat N
    \<and> g 0 = gen_state w
    \<and> (\<forall>i<k. gen_generate_macro_topics G n model kw pt (g i)
                   = (Inr (r i # rest i), h i)
                 \<and> gen_convert_response_to_yaml_list G (r i) model (Some kw) (h i)
                   = (Inl (YamlConversionError (m i)), g (Suc i)))
    \<and> gen_generate_macro_topics G n model kw pt (g k) = (Inr (r k # rest k), h k)
    \<and> gen_convert_response_to_yaml_list G (r k) model (Some kw) (h k) = (Inr ys, g (Suc k))
    \<longrightarrow> generate_macro_topics G model kw n pt N w
          = (Inr ys,
             w\<lparr>gen_state := g (Suc k),
               calls := calls w @ concat (map (\<lambda>i. [GenerateMacroTopics n model kw pt,
                  ConvertResponseToYamlList (r i) model (Some kw)]) [0..<Suc k]),
               stdout := stdout w @ map (\<lambda>i. retry_message (m i)) [0..<k]\<rparr>))"
  (is "(?H1 \<longrightarrow> ?C1) \<and> (?H2 \<longrightarrow> ?C2)")
proof (intro conjI impI)
  assume a: ?H1
  show ?C1
    by (rule subtopics_success_after_failures
          [OF a [THEN conjunct1]
              a [THEN conjunct2, THEN conjunct1]
              a [THEN conjunct2, THEN conjunct2, THEN conjunct1]
              a [THEN conjunct2, THEN conjunct2, THEN conjunct2, THEN conjunct1]
              a [THEN conjunct2, THEN conjunct2, THEN conjunct2, THEN conjunct2]])
next
  assume a: ?H2
  show ?C2
    by (rule macro_topics_success_after_failures
          [OF a [THEN conjunct1]
              a [THEN conjunct2, THEN conjunct1]
              a [THEN conjunct2, THEN conjunct2, THEN conjunct1]
              a [THEN conjunct2, THEN conjunct2, THEN conjunct2, THEN conjunct1]
              a [THEN conjunct2, THEN conjunct2, THEN conjunct2, THEN conjunct2]])
qed

theorem retry_until_conversion_succeeds_witness:
  "generate_subtopics two_bad_then_good ''m'' sample_kwargs ''Physics'' 2 ''p'' 5
       fresh_world
     = (Inr [''a'', ''b''],
        \<lparr>gen_state = (3, 3),
         stdout = [''Hit: bad0, Retrying...'', ''Hit: bad1, Retrying...''],
         calls = [GenerateSubtopics ''m'' sample_kwargs ''Physics'' 2 ''p'',
                  ConvertResponseToYamlList ''r0'' ''m'' None,
                  GenerateSubtopics ''m'' sample_kwargs ''Physics'' 2 ''p'',
                  ConvertResponseToYamlList ''r1'' ''m'' None,
                  GenerateSubtopics ''m'' sample_kwargs ''Physics'' 2 ''p'',
                  ConvertResponseToYamlList ''r2'' ''m'' None]\<rparr>)
   \<and> generate_macro_topics two_bad_then_good ''m'' sample_kwargs 2 ''p'' 5
       fresh_world
     = (Inr [''a'', ''b''],
        \<lparr>gen_state = (3, 3),
         stdout = [''Hit: bad0, Retrying...'', ''Hit: bad1, Retrying...''],
         calls = [GenerateMacroTopics 2 ''m'' sample_kwargs ''p'',
                  ConvertResponseToYamlList ''r0'' ''m'' (Some sample_kwargs),
                  GenerateMacroTopics 2 ''m'' sample_kwargs ''p'',
                  ConvertResponseToYamlList ''r1'' ''m'' (Some sample_kwargs),
                  GenerateMacroTopics 2 ''m'' sample_kwargs ''p'',
                  ConvertResponseToYamlList ''r2'' ''m'' (Some sample_kwargs)]\<rparr>)"
proof -
  note inst = retry_until_conversion_succeeds
    [where k = 2 and N = 5 and w = fresh_world and G = two_bad_then_good
       and model = "''m''" and kw = sample_kwargs and topic = "''Physics''"
       and n = 2 and pt = "''p''"
       and g = "\<lambda>i. (i, i)" and h = "\<lambda>i. (Suc i, i)"
       and r = "\<lambda>i. [''r0'', ''r1'', ''r2''] ! i"
       and rest = "\<lambda>i. [[''x0''], [], [''x2'']] ! i"
       and m = "\<lambda>i. [''bad0'', ''bad1''] ! i"
       and ys = "[''a'', ''b'']"]
  show ?thesis
    using inst
    by (simp add: numeral_2_eq_2 All_less_Suc two_bad_then_good_def scripted_generator_def
          fresh_world_def retry_message_def upt_rec nth_Cons')
qed

text \<open>
  C2. Suppose that on every one of the \<open>n_retries\<close> attempts the generation call returns a
  non-empty response and the conversion call raises a \<open>YamlConversionError\<close>. Then the
  function returns normally, with the empty list, and \<open>stdout\<close> has grown by exactly
  \<open>n_retries\<close> messages, one per attempt: no exception reaches the caller.
\<close>

theorem all_conversions_fail_returns_empty:
  "(g 0 = gen_state w
    \<and> (\<forall>i<nat N. gen_generate_subtopics G model kw topic n pt (g i)
                   = (Inr (r i # rest i), h i)
                 \<and> gen_convert_response_to_yaml_list G (r i) model None (h i)
                   = (Inl (YamlConversionError (m i)), g (Suc i)))
    \<longrightarrow> generate_subtopics G model kw topic n pt N w
          = (Inr [],
             w\<lparr>gen_state := g (nat N),
               calls := calls w @ concat (map (\<lambda>i. [GenerateSubtopics model kw topic n pt,
                  ConvertResponseToYamlList (r i) model None]) [0..<nat N]),
               stdout := stdout w @ map (\<lambda>i. retry_message (m i)) [0..<nat N]\<rparr>))
   \<and> (g 0 = gen_state w
    \<and> (\<forall>i<nat N. gen_generate_macro_topics G n model kw pt (g i)
                   = (Inr (r i # rest i), h i)
                 \<and> gen_convert_response_to_yaml_list G (r i) model (Some kw) (h i)
                   = (Inl (YamlConversionError (m i)), g (Suc i)))
    \<longrightarrow> generate_macro_topics G model kw n pt N w
          = (Inr [],
             w\<lparr>gen_state := g (nat N),
               calls := calls w @ concat (map (\<lambda>i. [GenerateMacroTopics n model kw pt,
                  ConvertResponseToYamlList (r i) model (Some kw)]) [0..<nat N]),
               stdout := stdout w @ map (\<lambda>i. retry_message (m i)) [0..<nat N]\<rparr>))"
  (is "(?H1 \<longrightarrow> ?C1) \<and> (?H2 \<longrightarrow> ?C2)")
proof (intro conjI impI)
  assume a: ?H1
  show ?C1
    by (rule subtopics_exhausted
          [OF a [THEN conjunct1]
              a [THEN conjunct2]])
next
  assume a: ?H2
  show ?C2
    by (rule macro_topics_exhausted
          [OF a [THEN conjunct1]
              a [THEN conjunct2]])
qed

theorem all_conversions_fail_returns_empty_witness:
  "generate_subtopics two_bad_then_good ''m'' sample_kwargs ''Physics'' 2 ''p'' 2
       fresh_world
     = (Inr [],
        \<lparr>gen_state = (2, 2),
         stdout = [''Hit: bad0, Retrying...'', ''Hit: bad1, Retrying...''],
         calls = [GenerateSubtopics ''m'' sample_kwargs ''Physics'' 2 ''p'',
                  ConvertResponseToYamlList ''r0'' ''m'' None,
                  GenerateSubtopics ''m'' sample_kwargs ''Physics'' 2 ''p'',
                  ConvertResponseToYamlList ''r1'' ''m'' None]\<rparr>)
   \<and> generate_macro_topics two_bad_then_good ''m'' sample_kwargs 2 ''p'' 2
       fresh_world
     = (Inr [],
        \<lparr>gen_state = (2, 2),
         stdout = [''Hit: bad0, Retrying...'', ''Hit: bad1, Retrying...''],
         calls = [GenerateMacroTopics 2 ''m'' sample_kwargs ''p'',
                  ConvertResponseToYamlList ''r0'' ''m'' (Some sample_kwargs),
                  GenerateMacroTopics 2 ''m'' sample_kwargs ''p'',
                  ConvertResponseToYamlList ''r1'' ''m'' (Some sample_kwargs)]\<rparr>)"
proof -
  note inst = all_conversions_fail_returns_empty
    [where N = 2 and w = fresh_world and G = two_bad_then_good
       and model = "''m''" and kw = sample_kwargs and topic = "''Physics''"
       and n = 2 and pt = "''p''"
       and g = "\<lambda>i. (i, i)" and h = "\<lambda>i. (Suc i, i)"
       and r = "\<lambda>i. [''r0'', ''r1'', ''r2''] ! i"
       and rest = "\<lambda>i. [[''x0''], [], [''x2'']] ! i"
       and m = "\<lambda>i. [''bad0'', ''bad1''] ! i"]
  show ?thesis
    using inst
    by (simp add: numeral_2_eq_2 All_less_Suc two_bad_then_good_def scripted_generator_def
          fresh_world_def retry_message_def upt_rec nth_Cons')
qed

text \<open>
  C3. Suppose the \<open>try\<close> blocks of the first \<open>k < n_retries\<close> attempts raise a
  \<open>YamlConversionError\<close>, and on attempt \<open>k\<close> the generator raises an exception \<open>e\<close> of
  another class: either the generation call raises it, or the generation call returns
  \<open>r # rest\<close> and the conversion call on \<open>r\<close> raises it. Then the function ends with \<open>e\<close>.
  The generator is left in the state \<open>g'\<close> of the raise and the call log ends with the calls
  of attempt \<open>k\<close> up to the raising one, so nothing is called afterwards; \<open>stdout\<close> holds the
  \<open>k\<close> messages of the earlier attempts only, none for attempt \<open>k\<close>. The first two conjuncts
  are about \<open>generate_subtopics\<close>, the last two about \<open>generate_macro_topics\<close>.
\<close>

theorem other_error_propagates_at_once:
  "(k < nat N
    \<and> g 0 = gen_state w
    \<and> (\<forall>i<k. subtopics_try G model kw topic n pt (g i)
                   = (Inl (YamlConversionError (m i)), g (Suc i), cs i))
    \<and> gen_generate_subtopics G model kw topic n pt (g k) = (Inl e, g')
    \<and> \<not> is_YamlConversionError e
    \<longrightarrow> generate_subtopics G model kw topic n pt N w
          = (Inl e,
             w\<lparr>gen_state := g',
               calls := calls w @ concat (map cs [0..<k])
                 @ [GenerateSubtopics model kw topic n pt],
               stdout := stdout w @ map (\<lambda>i. retry_message (m i)) [0..<k]\<rparr>))
   \<and> (k < nat N
    \<and> g 0 = gen_state w
    \<and> (\<forall>i<k. subtopics_try G model kw topic n pt (g i)
                   = (Inl (YamlConversionError (m i)), g (Suc i), cs i))
    \<and> gen_generate_subtopics G model kw topic n pt (g k) = (Inr (r # rest), h)
    \<and> gen_convert_response_to_yaml_list G r model None h = (Inl e, g')
    \<and> \<not> is_YamlConversionError e
    \<longrightarrow> generate_subtopics G model kw topic n pt N w
          = (Inl e,
             w\<lparr>gen_state := g',
               calls := calls w @ concat (map cs [0..<k])
                 @ [GenerateSubtopics model kw topic n pt,
                    ConvertResponseToYamlList r model None],
               stdout := stdout w @ map (\<lambda>i. retry_message (m i)) [0..<k]\<rparr>))
   \<and> (k < nat N
    \<and> g 0 = gen_state w
    \<and> (\<forall>i<k. macro_topics_try G model kw n pt (g i)
                   = (Inl (YamlConversionError (m i)), g (Suc i), cs i))
    \<and> gen_generate_macro_topics G n model kw pt (g k) = (Inl e, g')
    \<and> \<not> is_YamlConversionError e
    \<longrightarrow> generate_macro_topics G model kw n pt N w
          = (Inl e,
             w\<lparr>gen_state := g',
               calls := calls w @ concat (map cs [0..<k])
                 @ [GenerateMacroTopics n model kw pt],
               stdout := stdout w @ map (\<lambda>i. retry_message (m i)) [0..<k]\<rparr>))
   \<and> (k < nat N
    \<and> g 0 = gen_state w
    \<and> (\<forall>i<k. macro_topics_try G model kw n pt (g i)
                   = (Inl (YamlConversionError (m i)), g (Suc i), cs i))
    \<and> gen_generate_macro_topics G n model kw pt (g k) = (Inr (r # rest), h)
    \<and> gen_convert_response_to_yaml_list G r model (Some kw) h = (Inl e, g')
    \<and> \<not> is_YamlConversionError e
    \<longrightarrow> generate_macro_topics G model kw n pt N w
          = (Inl e,
             w\<lparr>gen_state := g',
               calls := calls w @ concat (map cs [0..<k])
                 @ [GenerateMacroTopics n model kw pt,
                    ConvertResponseToYamlList r model (Some kw)],
               stdout := stdout w @ map (\<lambda>i. retry_message (m i)) [0..<k]\<rparr>))"
  (is "(?H1 \<longrightarrow> ?C1) \<and> (?H2 \<longrightarrow> ?C2) \<and> (?H3 \<longrightarrow> ?C3) \<and> (?H4 \<longrightarrow> ?C4)")
proof (intro conjI impI)
  assume a: ?H1
  show ?C1
    by (rule subtopics_generation_raises
          [OF a [THEN conjunct1]
              a [THEN conjunct2, THEN conjunct1]
              a [THEN conjunct2, THEN conjunct2, THEN conjunct1]
              a [THEN conjunct2, THEN conjunct2, THEN conjunct2, THEN conjunct1]
              a [THEN conjunct2, THEN conjunct2, THEN conjunct2, THEN conjunct2]])
next
  assume a: ?H2
  show ?C2
    by (rule subtopics_conversion_raises
          [OF a [THEN conjunct1]
              a [THEN conjunct2, THEN conjunct1]
              a [THEN conjunct2, THEN conjunct2, THEN conjunct1]
              a [THEN conjunct2, THEN conjunct2, THEN conjunct2, THEN conjunct1]
              a [THEN conjunct2, THEN conjunct2, THEN conjunct2, THEN conjunct2, THEN conjunct1]
              a [THEN conjunct2, THEN conjunct2, THEN conjunct2, THEN conjunct2, THEN conjunct2]])
next
  assume a: ?H3
  show ?C3
    by (rule macro_topics_generation_raises
          [OF a [THEN conjunct1]
              a [THEN conjunct2, THEN conjunct1]
              a [THEN conjunct2, THEN conjunct2, THEN conjunct1]
              a [THEN conjunct2, THEN conjunct2, THEN conjunct2, THEN conjunct1]
              a [THEN conjunct2, THEN conjunct2, THEN conjunct2, THEN conjunct2]])
next
  assume a: ?H4
  show ?C4
    by (rule macro_topics_conversion_raises
          [OF a [THEN conjunct1]
              a [THEN conjunct2, THEN conjunct1]
              a [THEN conjunct2, THEN conjunct2, THEN conjunct1]
              a [THEN conjunct2, THEN conjunct2, THEN conjunct2, THEN conjunct1]
              a [THEN conjunct2, THEN conjunct2, THEN conjunct2, THEN conjunct2, THEN conjunct1]
              a [THEN conjunct2, THEN conjunct2, THEN conjunct2, THEN conjunct2, THEN conjunct2]])
qed

theorem other_error_propagates_at_once_witness:
  "generate_subtopics error_on_second_attempt ''m'' sample_kwargs ''Physics'' 2 ''p'' 5
       fresh_world
     = (Inl (OtherError ''connection refused''),
        \<lparr>gen_state = (2, 1),
         stdout = [''Hit: bad0, Retrying...''],
         calls = [GenerateSubtopics ''m'' sample_kwargs ''Physics'' 2 ''p'',
                  ConvertResponseToYamlList ''r0'' ''m'' None,
                  GenerateSubtopics ''m'' sample_kwargs ''Physics'' 2 ''p'']\<rparr>)
   \<and> generate_subtopics conversion_breaks_on_second ''m'' sample_kwargs ''Physics'' 2 ''p'' 5
       fresh_world
     = (Inl (OtherError ''boom''),
        \<lparr>gen_state = (2, 2),
         stdout = [''Hit: bad0, Retrying...''],
         calls = [GenerateSubtopics ''m'' sample_kwargs ''Physics'' 2 ''p'',
                  ConvertResponseToYamlList ''r0'' ''m'' None,
                  GenerateSubtopics ''m'' sample_kwargs ''Physics'' 2 ''p'',
                  ConvertResponseToYamlList ''r1'' ''m'' None]\<rparr>)
   \<and> generate_macro_topics error_on_second_attempt ''m'' sample_kwargs 2 ''p'' 5
       fresh_world
     = (Inl (OtherError ''connection refused''),
        \<lparr>gen_state = (2, 1),
         stdout = [''Hit: bad0, Retrying...''],
         calls = [GenerateMacroTopics 2 ''m'' sample_kwargs ''p'',
                  ConvertResponseToYamlList ''r0'' ''m'' (Some sample_kwargs),
                  GenerateMacroTopics 2 ''m'' sample_kwargs ''p'']\<rparr>)
   \<and> generate_macro_topics conversion_breaks_on_second ''m'' sample_kwargs 2 ''p'' 5
       fresh_world
     = (Inl (OtherError ''boom''),
        \<lparr>gen_state = (2, 2),
         stdout = [''Hit: bad0, Retrying...''],
         calls = [GenerateMacroTopics 2 ''m'' sample_kwargs ''p'',
                  ConvertResponseToYamlList ''r0'' ''m'' (Some sample_kwargs),
                  GenerateMacroTopics 2 ''m'' sample_kwargs ''p'',
                  ConvertResponseToYamlList ''r1'' ''m'' (Some sample_kwargs)]\<rparr>)"
proof -
  note inst_a = other_error_propagates_at_once
    [where k = 1 and N = 5 and G = error_on_second_attempt and w = fresh_world
       and model = "''m''" and kw = sample_kwargs and topic = "''Physics''"
       and n = 2 and pt = "''p''"
       and g = "\<lambda>i. (i, i)" and m = "\<lambda>i. ''bad0''"
       and cs = "\<lambda>i. [GenerateSubtopics ''m'' sample_kwargs ''Physics'' 2 ''p'',
                      ConvertResponseToYamlList ''r0'' ''m'' None]"
       and e = "OtherError ''connection refused''" and g' = "(2, 1)"]
  note inst_b = other_error_propagates_at_once
    [where k = 1 and N = 5 and G = conversion_breaks_on_second and w = fresh_world
       and model = "''m''" and kw = sample_kwargs and topic = "''Physics''"
       and n = 2 and pt = "''p''"
       and g = "\<lambda>i. (i, i)" and m = "\<lambda>i. ''bad0''"
       and cs = "\<lambda>i. [GenerateSubtopics ''m'' sample_kwargs ''Physics'' 2 ''p'',
                      ConvertResponseToYamlList ''r0'' ''m'' None]"
       and e = "OtherError ''boom''" and g' = "(2, 2)"
       and r = "''r1''" and rest = "[''x1'']" and h = "(2, 1)"]
  note inst_c = other_error_propagates_at_once
    [where k = 1 and N = 5 and G = error_on_second_attempt and w = fresh_world
       and model = "''m''" and kw = sample_kwargs and topic = "''Physics''"
       and n = 2 and pt = "''p''"
       and g = "\<lambda>i. (i, i)" and m = "\<lambda>i. ''bad0''"
       and cs = "\<lambda>i. [GenerateMacroTopics 2 ''m'' sample_kwargs ''p'',
                      ConvertResponseToYamlList ''r0'' ''m'' (Some sample_kwargs)]"
       and e = "OtherError ''connection refused''" and g' = "(2, 1)"]
  note inst_d = other_error_propagates_at_once
    [where k = 1 and N = 5 and G = conversion_breaks_on_second and w = fresh_world
       and model = "''m''" and kw = sample_kwargs and topic = "''Physics''"
       and n = 2 and pt = "''p''"
       and g = "\<lambda>i. (i, i)" and m = "\<lambda>i. ''bad0''"
       and cs = "\<lambda>i. [GenerateMacroTopics 2 ''m'' sample_kwargs ''p'',
                      ConvertResponseToYamlList ''r0'' ''m'' (Some sample_kwargs)]"
       and e = "OtherError ''boom''" and g' = "(2, 2)"
       and r = "''r1''" and rest = "[''x1'']" and h = "(2, 1)"]
  have a: "generate_subtopics error_on_second_attempt ''m'' sample_kwargs ''Physics'' 2 ''p'' 5
       fresh_world
     = (Inl (OtherError ''connection refused''),
        \<lparr>gen_state = (2, 1),
         stdout = [''Hit: bad0, Retrying...''],
         calls = [GenerateSubtopics ''m'' sample_kwargs ''Physics'' 2 ''p'',
                  ConvertResponseToYamlList ''r0'' ''m'' None,
                  GenerateSubtopics ''m'' sample_kwargs ''Physics'' 2 ''p'']\<rparr>)"
    using inst_a
    by (simp add: error_on_second_attempt_def scripted_generator_def fresh_world_def
          retry_message_def subtopics_try_def macro_topics_try_def)
  have b: "generate_subtopics conversion_breaks_on_second ''m'' sample_kwargs ''Physics'' 2 ''p'' 5
       fresh_world
     = (Inl (OtherError ''boom''),
        \<lparr>gen_state = (2, 2),
         stdout = [''Hit: bad0, Retrying...''],
         calls = [GenerateSubtopics ''m'' sample_kwargs ''Physics'' 2 ''p'',
                  ConvertResponseToYamlList ''r0'' ''m'' None,
                  GenerateSubtopics ''m'' sample_kwargs ''Physics'' 2 ''p'',
                  ConvertResponseToYamlList ''r1'' ''m'' None]\<rparr>)"
    using inst_b
    by (simp add: conversion_breaks_on_second_def scripted_generator_def fresh_world_def
          retry_message_def subtopics_try_def macro_topics_try_def)
  have c: "generate_macro_topics error_on_second_attempt ''m'' sample_kwargs 2 ''p'' 5
       fresh_world
     = (Inl (OtherError ''connection refused''),
        \<lparr>gen_state = (2, 1),
         stdout = [''Hit: bad0, Retrying...''],
         calls = [GenerateMacroTopics 2 ''m'' sample_kwargs ''p'',
                  ConvertResponseToYamlList ''r0'' ''m'' (Some sample_kwargs),
                  GenerateMacroTopics 2 ''m'' sample_kwargs ''p'']\<rparr>)"
    using inst_c
    by (simp add: error_on_second_attempt_def scripted_generator_def fresh_world_def
          retry_message_def subtopics_try_def macro_topics_try_def)
  have d: "generate_macro_topics conversion_breaks_on_second ''m'' sample_kwargs 2 ''p'' 5
       fresh_world
     = (Inl (OtherError ''boom''),
        \<lparr>gen_state = (2, 2),
         stdout = [''Hit: bad0, Retrying...''],
         calls = [GenerateMacroTopics 2 ''m'' sample_kwargs ''p'',
                  ConvertResponseToYamlList ''r0'' ''m'' (Some sample_kwargs),
                  GenerateMacroTopics 2 ''m'' sample_kwargs ''p'',
                  ConvertResponseToYamlList ''r1'' ''m'' (Some sample_kwargs)]\<rparr>)"
    using inst_d
    by (simp add: conversion_breaks_on_second_def scripted_generator_def fresh_world_def
          retry_message_def subtopics_try_def macro_topics_try_def)
  show ?thesis
    using a b c d by blast
qed

text \<open>
  C4, as the code has it. Neither function compares the list it returns with the requested
  count, and a conversion may succeed with an empty list. When three topics come back for
  a request of two, all three are returned; when the first conversion returns the empty
  list, the result is empty although no attempt has failed and nothing has been printed.
\<close>

theorem topic_count_is_not_enforced:
  "fst (generate_subtopics three_topics ''m'' sample_kwargs ''Physics'' 2 ''p'' 5
       fresh_world)
     = Inr [''a'', ''b'', ''c'']
   \<and> fst (generate_macro_topics three_topics ''m'' sample_kwargs 2 ''p'' 5
       fresh_world)
     = Inr [''a'', ''b'', ''c'']
   \<and> (2::int) < int (length [''a'', ''b'', ''c''])
   \<and> generate_subtopics no_topics ''m'' sample_kwargs ''Physics'' 2 ''p'' 5
       fresh_world
     = (Inr [],
        \<lparr>gen_state = (1, 1),
         stdout = [],
         calls = [GenerateSubtopics ''m'' sample_kwargs ''Physics'' 2 ''p'',
                  ConvertResponseToYamlList ''r0'' ''m'' None]\<rparr>)
   \<and> generate_macro_topics no_topics ''m'' sample_kwargs 2 ''p'' 5
       fresh_world
     = (Inr [],
        \<lparr>gen_state = (1, 1),
         stdout = [],
         calls = [GenerateMacroTopics 2 ''m'' sample_kwargs ''p'',
                  ConvertResponseToYamlList ''r0'' ''m'' (Some sample_kwargs)]\<rparr>)"
  by (simp add: three_topics_def no_topics_def scripted_generator_def fresh_world_def
        generate_subtopics_def generate_macro_topics_def subtopics_try_def
        macro_topics_try_def numeral_eq_Suc)

text \<open>
  C4, amended. When a call returns normally, the list it returns is either the list that a
  call of \<open>convert_response_to_yaml_list\<close> returned, with the generator left in the state
  after that call, or it is the empty list and \<open>n_retries\<close> messages have been printed, one
  for each attempt. So the result is as long as the conversion made it, and it is empty
  only if every attempt failed or the conversion itself returned an empty list.
\<close>

theorem result_is_converted_list_or_empty:
  "(generate_subtopics G model kw topic n pt N w = (Inr ys, w')
    \<longrightarrow> ((\<exists>r g1. gen_convert_response_to_yaml_list G r model None g1
                   = (Inr ys, gen_state w'))
         \<or> (ys = [] \<and> length (stdout w') = length (stdout w) + nat N)))
   \<and> (generate_macro_topics G model kw n pt N w = (Inr ys, w')
    \<longrightarrow> ((\<exists>r g1. gen_convert_response_to_yaml_list G r model (Some kw) g1
                   = (Inr ys, gen_state w'))
         \<or> (ys = [] \<and> length (stdout w') = length (stdout w) + nat N)))"
  (is "(?H1 \<longrightarrow> ?C1) \<and> (?H2 \<longrightarrow> ?C2)")
proof (intro conjI impI)
  assume a: ?H1
  show ?C1
    by (rule generate_subtopics_returns
          [OF a])
next
  assume a: ?H2
  show ?C2
    by (rule generate_macro_topics_returns
          [OF a])
qed

theorem result_is_converted_list_or_empty_witness:
  "generate_subtopics two_bad_then_good ''m'' sample_kwargs ''Physics'' 2 ''p'' 5
       fresh_world
     = (Inr [''a'', ''b''],
        \<lparr>gen_state = (3, 3),
         stdout = [''Hit: bad0, Retrying...'', ''Hit: bad1, Retrying...''],
         calls = [GenerateSubtopics ''m'' sample_kwargs ''Physics'' 2 ''p'',
                  ConvertResponseToYamlList ''r0'' ''m'' None,
                  GenerateSubtopics ''m'' sample_kwargs ''Physics'' 2 ''p'',
                  ConvertResponseToYamlList ''r1'' ''m'' None,
                  GenerateSubtopics ''m'' sample_kwargs ''Physics'' 2 ''p'',
                  ConvertResponseToYamlList ''r2'' ''m'' None]\<rparr>)
   \<and> (\<exists>r g1. gen_convert_response_to_yaml_list two_bad_then_good r ''m'' None g1
                 = (Inr [''a'', ''b''], (3, 3)))
   \<and> generate_macro_topics two_bad_then_good ''m'' sample_kwargs 2 ''p'' 5
       fresh_world
     = (Inr [''a'', ''b''],
        \<lparr>gen_state = (3, 3),
         stdout = [''Hit: bad0, Retrying...'', ''Hit: bad1, Retrying...''],
         calls = [GenerateMacroTopics 2 ''m'' sample_kwargs ''p'',
                  ConvertResponseToYamlList ''r0'' ''m'' (Some sample_kwargs),
                  GenerateMacroTopics 2 ''m'' sample_kwargs ''p'',
                  ConvertResponseToYamlList ''r1'' ''m'' (Some sample_kwargs),
                  GenerateMacroTopics 2 ''m'' sample_kwargs ''p'',
                  ConvertResponseToYamlList ''r2'' ''m'' (Some sample_kwargs)]\<rparr>)
   \<and> (\<exists>r g1. gen_convert_response_to_yaml_list two_bad_then_good r ''m''
                   (Some sample_kwargs) g1
                 = (Inr [''a'', ''b''], (3, 3)))"
proof -
  have s: "generate_subtopics two_bad_then_good ''m'' sample_kwargs ''Physics'' 2 ''p'' 5
       fresh_world
     = (Inr [''a'', ''b''],
        \<lparr>gen_state = (3, 3),
         stdout = [''Hit: bad0, Retrying...'', ''Hit: bad1, Retrying...''],
         calls = [GenerateSubtopics ''m'' sample_kwargs ''Physics'' 2 ''p'',
                  ConvertResponseToYamlList ''r0'' ''m'' None,
                  GenerateSubtopics ''m'' sample_kwargs ''Physics'' 2 ''p'',
                  ConvertResponseToYamlList ''r1'' ''m'' None,
                  GenerateSubtopics ''m'' sample_kwargs ''Physics'' 2 ''p'',
                  ConvertResponseToYamlList ''r2'' ''m'' None]\<rparr>)"
    by (simp add: two_bad_then_good_def scripted_generator_def fresh_world_def
          generate_subtopics_def subtopics_try_def retry_message_def numeral_eq_Suc)
  have m: "generate_macro_topics two_bad_then_good ''m'' sample_kwargs 2 ''p'' 5
       fresh_world
     = (Inr [''a'', ''b''],
        \<lparr>gen_state = (3, 3),
         stdout = [''Hit: bad0, Retrying...'', ''Hit: bad1, Retrying...''],
         calls = [GenerateMacroTopics 2 ''m'' sample_kwargs ''p'',
                  ConvertResponseToYamlList ''r0'' ''m'' (Some sample_kwargs),
                  GenerateMacroTopics 2 ''m'' sample_kwargs ''p'',
                  ConvertResponseToYamlList ''r1'' ''m'' (Some sample_kwargs),
                  GenerateMacroTopics 2 ''m'' sample_kwargs ''p'',
                  ConvertResponseToYamlList ''r2'' ''m'' (Some sample_kwargs)]\<rparr>)"
    by (simp add: two_bad_then_good_def scripted_generator_def fresh_world_def
          generate_macro_topics_def macro_topics_try_def retry_message_def numeral_eq_Suc)
  note inst = result_is_converted_list_or_empty
  from inst [THEN conjunct1, THEN mp, OF s] inst [THEN conjunct2, THEN mp, OF m] s m
  show ?thesis
    by simp
qed

text \<open>
  C5. With \<open>n_retries = 0\<close> both functions return the empty list at once: the world is
  returned as it was, so no method of the generator has been called and nothing has been
  printed.
\<close>

theorem zero_retries_returns_empty:
  "generate_subtopics generator model model_kwargs macro_topic n_subtopics prompt_template 0 w
     = (Inr [], w)
   \<and> generate_macro_topics generator model model_kwargs n_macro_topics prompt_template 0 w
     = (Inr [], w)"
  by (simp add: generate_subtopics_def generate_macro_topics_def)

text \<open>
  C6. Let \<open>resp i\<close> be the response collection the generation call returns on attempt \<open>i\<close>,
  each of them non-empty. Suppose the conversion of element \<open>0\<close> of \<open>resp i\<close> raises a
  \<open>YamlConversionError\<close> on each of the first \<open>k < n_retries\<close> attempts, and the conversion
  of element \<open>0\<close> of \<open>resp k\<close> ends with \<open>out\<close>, a list or an exception of another class.
  Then the function ends with \<open>out\<close>, and the conversion calls it has made are those on
  \<open>resp i ! 0\<close> for \<open>i \<le> k\<close>, one per attempt: nothing is assumed about the other elements
  of a response, and what the function does is fixed by what the conversion does on element
  \<open>0\<close>. Moreover, cutting every response down to its first element changes nothing:
  neither the result nor the generator's state, the messages printed or the calls made.
\<close>

theorem only_first_item_is_converted:
  "(k < nat N
    \<and> g 0 = gen_state w
    \<and> (\<forall>i<k. gen_generate_subtopics G model kw topic n pt (g i) = (Inr (resp i), h i)
                 \<and> resp i \<noteq> []
                 \<and> gen_convert_response_to_yaml_list G (resp i ! 0) model None (h i)
                   = (Inl (YamlConversionError (m i)), g (Suc i)))
    \<and> gen_generate_subtopics G model kw topic n pt (g k) = (Inr (resp k), h k)
    \<and> resp k \<noteq> []
    \<and> gen_convert_response_to_yaml_list G (resp k ! 0) model None (h k) = (out, g (Suc k))
    \<and> (\<forall>msg. out \<noteq> Inl (YamlConversionError msg))
    \<longrightarrow> generate_subtopics G model kw topic n pt N w
          = (out,
             w\<lparr>gen_state := g (Suc k),
               calls := calls w @ concat (map (\<lambda>i. [GenerateSubtopics model kw topic n pt,
                  ConvertResponseToYamlList (resp i ! 0) model None]) [0..<Suc k]),
               stdout := stdout w @ map (\<lambda>i. retry_message (m i)) [0..<k]\<rparr>))
   \<and> generate_subtopics (first_item_only G) model kw topic n pt N w
         = generate_subtopics G model kw topic n pt N w
   \<and> (k < nat N
    \<and> g 0 = gen_state w
    \<and> (\<forall>i<k. gen_generate_macro_topics G n model kw pt (g i) = (Inr (resp i), h i)
                 \<and> resp i \<noteq> []
                 \<and> gen_convert_response_to_yaml_list G (resp i ! 0) model (Some kw) (h i)
                   = (Inl (YamlConversionError (m i)), g (Suc i)))
    \<and> gen_generate_macro_topics G n model kw pt (g k) = (Inr (resp k), h k)
    \<and> resp k \<noteq> []
    \<and> gen_convert_response_to_yaml_list G (resp k ! 0) model (Some kw) (h k) = (out, g (Suc k))
    \<and> (\<forall>msg. out \<noteq> Inl (YamlConversionError msg))
    \<longrightarrow> generate_macro_topics G model kw n pt N w
          = (out,
             w\<lparr>gen_state := g (Suc k),
               calls := calls w @ concat (map (\<lambda>i. [GenerateMacroTopics n model kw pt,
                  ConvertResponseToYamlList (resp i ! 0) model (Some kw)]) [0..<Suc k]),
               stdout := stdout w @ map (\<lambda>i. retry_message (m i)) [0..<k]\<rparr>))
   \<and> generate_macro_topics (first_item_only G) model kw n pt N w
         = generate_macro_topics G model kw n pt N w"
  (is "(?H1 \<longrightarrow> ?C1) \<and> ?I1 \<and> (?H2 \<longrightarrow> ?C2) \<and> ?I2")
proof (intro conjI impI)
  assume a: ?H1
  show ?C1
    by (rule subtopics_item_0_converted
          [OF a [THEN conjunct1]
              a [THEN conjunct2, THEN conjunct1]
              a [THEN conjunct2, THEN conjunct2, THEN conjunct1]
              a [THEN conjunct2, THEN conjunct2, THEN conjunct2, THEN conjunct1]
              a [THEN conjunct2, THEN conjunct2, THEN conjunct2, THEN conjunct2, THEN conjunct1]
              a [THEN conjunct2, THEN conjunct2, THEN conjunct2, THEN conjunct2, THEN conjunct2, THEN conjunct1]
              a [THEN conjunct2, THEN conjunct2, THEN conjunct2, THEN conjunct2, THEN conjunct2, THEN conjunct2]])
next
  show ?I1
    by (simp add: generate_subtopics_def subtopics_loop_first_item_only)
next
  assume a: ?H2
  show ?C2
    by (rule macro_topics_item_0_converted
          [OF a [THEN conjunct1]
              a [THEN conjunct2, THEN conjunct1]
              a [THEN conjunct2, THEN conjunct2, THEN conjunct1]
              a [THEN conjunct2, THEN conjunct2, THEN conjunct2, THEN conjunct1]
              a [THEN conjunct2, THEN conjunct2, THEN conjunct2, THEN conjunct2, THEN conjunct1]
              a [THEN conjunct2, THEN conjunct2, THEN conjunct2, THEN conjunct2, THEN conjunct2, THEN conjunct1]
              a [THEN conjunct2, THEN conjunct2, THEN conjunct2, THEN conjunct2, THEN conjunct2, THEN conjunct2]])
next
  show ?I2
    by (simp add: generate_macro_topics_def macro_topics_loop_first_item_only)
qed

theorem only_first_item_is_converted_witness:
  "generate_subtopics head_reader ''m'' sample_kwargs ''Physics'' 2 ''p'' 5
       fresh_world
     = (Inr [''a''],
        \<lparr>gen_state = (2, 2),
         stdout = [''Hit: cannot parse garbage, Retrying...''],
         calls = [GenerateSubtopics ''m'' sample_kwargs ''Physics'' 2 ''p'',
                  ConvertResponseToYamlList ''garbage'' ''m'' None,
                  GenerateSubtopics ''m'' sample_kwargs ''Physics'' 2 ''p'',
                  ConvertResponseToYamlList ''- a'' ''m'' None]\<rparr>)
   \<and> generate_subtopics (first_item_only head_reader) ''m'' sample_kwargs ''Physics'' 2 ''p'' 5
       fresh_world
     = generate_subtopics head_reader ''m'' sample_kwargs ''Physics'' 2 ''p'' 5
         fresh_world
   \<and> generate_macro_topics head_reader ''m'' sample_kwargs 2 ''p'' 5
       fresh_world
     = (Inr [''a''],
        \<lparr>gen_state = (2, 2),
         stdout = [''Hit: cannot parse garbage, Retrying...''],
         calls = [GenerateMacroTopics 2 ''m'' sample_kwargs ''p'',
                  ConvertResponseToYamlList ''garbage'' ''m'' (Some sample_kwargs),
                  GenerateMacroTopics 2 ''m'' sample_kwargs ''p'',
                  ConvertResponseToYamlList ''- a'' ''m'' (Some sample_kwargs)]\<rparr>)
   \<and> generate_macro_topics (first_item_only head_reader) ''m'' sample_kwargs 2 ''p'' 5
       fresh_world
     = generate_macro_topics head_reader ''m'' sample_kwargs 2 ''p'' 5
         fresh_world"
proof -
  note inst = only_first_item_is_converted
    [where k = 1 and N = 5 and G = head_reader and w = fresh_world
       and model = "''m''" and kw = sample_kwargs and topic = "''Physics''"
       and n = 2 and pt = "''p''"
       and g = "\<lambda>i. (i, i)" and h = "\<lambda>i. (Suc i, i)"
       and resp = "\<lambda>i. if i = 0 then [''garbage'', ''- a''] else [''- a'', ''garbage'']"
       and m = "\<lambda>i. ''cannot parse garbage''" and out = "Inr [''a'']"]
  show ?thesis
    using inst
    by (simp add: head_reader_def fresh_world_def retry_message_def upt_rec)
qed

text \<open>
  C7. What the conversion is applied to decides the outcome. Let \<open>n_retries\<close> be positive and
  let the first generation call return \<open>r # rest\<close>. If the conversion of \<open>r\<close> with \<open>model\<close>
  and without \<open>model_kwargs\<close> ends with \<open>out\<close>, a list or an exception of another class,
  then \<open>generate_subtopics\<close> ends with \<open>out\<close>; if the conversion of \<open>r\<close> with \<open>model\<close> and
  with \<open>model_kwargs\<close> ends with \<open>out\<close>, then \<open>generate_macro_topics\<close> ends with \<open>out\<close>.
  And nothing else of the conversion is used: two generators with the same generation
  method whose conversions agree whenever \<open>model_kwargs\<close> is not passed give the same run
  of \<open>generate_subtopics\<close>, whatever their conversions do when it is passed; two generators
  whose conversions agree whenever this \<open>model_kwargs\<close> is passed give the same run of
  \<open>generate_macro_topics\<close>.
\<close>

theorem conversion_arguments_of_the_two_variants:
  "(0 < N
    \<and> gen_generate_subtopics G model kw topic n pt (gen_state w) = (Inr (r # rest), h)
    \<and> gen_convert_response_to_yaml_list G r model None h = (out, g')
    \<and> (\<forall>msg. out \<noteq> Inl (YamlConversionError msg))
    \<longrightarrow> generate_subtopics G model kw topic n pt N w
          = (out,
             w\<lparr>gen_state := g',
               calls := calls w @ [GenerateSubtopics model kw topic n pt,
                                    ConvertResponseToYamlList r model None]\<rparr>))
   \<and> (gen_generate_subtopics H = gen_generate_subtopics G
    \<and> (\<forall>r g. gen_convert_response_to_yaml_list H r model None g
                   = gen_convert_response_to_yaml_list G r model None g)
    \<longrightarrow> generate_subtopics H model kw topic n pt N w
          = generate_subtopics G model kw topic n pt N w)
   \<and> (0 < N
    \<and> gen_generate_macro_topics G n model kw pt (gen_state w) = (Inr (r # rest), h)
    \<and> gen_convert_response_to_yaml_list G r model (Some kw) h = (out, g')
    \<and> (\<forall>msg. out \<noteq> Inl (YamlConversionError msg))
    \<longrightarrow> generate_macro_topics G model kw n pt N w
          = (out,
             w\<lparr>gen_state := g',
               calls := calls w @ [GenerateMacroTopics n model kw pt,
                                    ConvertResponseToYamlList r model (Some kw)]\<rparr>))
   \<and> (gen_generate_macro_topics H = gen_generate_macro_topics G
    \<and> (\<forall>r g. gen_convert_response_to_yaml_list H r model (Some kw) g
                   = gen_convert_response_to_yaml_list G r model (Some kw) g)
    \<longrightarrow> generate_macro_topics H model kw n pt N w
          = generate_macro_topics G model kw n pt N w)"
  (is "(?H1 \<longrightarrow> ?C1) \<and> (?H2 \<longrightarrow> ?C2) \<and> (?H3 \<longrightarrow> ?C3) \<and> (?H4 \<longrightarrow> ?C4)")
proof (intro conjI impI)
  assume a: ?H1
  show ?C1
    by (rule subtopics_first_attempt
          [OF a [THEN conjunct1]
              a [THEN conjunct2, THEN conjunct1]
              a [THEN conjunct2, THEN conjunct2, THEN conjunct1]
              a [THEN conjunct2, THEN conjunct2, THEN conjunct2]])
next
  assume a: ?H2
  show ?C2
    by (rule generate_subtopics_same_conversion
          [OF a [THEN conjunct1]
              a [THEN conjunct2]])
next
  assume a: ?H3
  show ?C3
    by (rule macro_topics_first_attempt
          [OF a [THEN conjunct1]
              a [THEN conjunct2, THEN conjunct1]
              a [THEN conjunct2, THEN conjunct2, THEN conjunct1]
              a [THEN conjunct2, THEN conjunct2, THEN conjunct2]])
next
  assume a: ?H4
  show ?C4
    by (rule generate_macro_topics_same_conversion
          [OF a [THEN conjunct1]
              a [THEN conjunct2]])
qed

theorem conversion_arguments_of_the_two_variants_witness:
  "generate_subtopics (tagging_generator ''no kwargs'' ''kwargs'') ''m'' sample_kwargs ''Physics'' 2 ''p'' 5
       fresh_world
     = (Inr [''first'', ''m'', ''no kwargs''],
        \<lparr>gen_state = (1, 1),
         stdout = [],
         calls = [GenerateSubtopics ''m'' sample_kwargs ''Physics'' 2 ''p'',
                  ConvertResponseToYamlList ''first'' ''m'' None]\<rparr>)
   \<and> generate_subtopics (tagging_generator ''no kwargs'' ''other'') ''m'' sample_kwargs ''Physics'' 2 ''p'' 5
       fresh_world
     = generate_subtopics (tagging_generator ''no kwargs'' ''kwargs'') ''m'' sample_kwargs ''Physics'' 2 ''p'' 5
         fresh_world
   \<and> generate_macro_topics (tagging_generator ''no kwargs'' ''kwargs'') ''m'' sample_kwargs 2 ''p'' 5
       fresh_world
     = (Inr [''first'', ''m'', ''kwargs''],
        \<lparr>gen_state = (1, 1),
         stdout = [],
         calls = [GenerateMacroTopics 2 ''m'' sample_kwargs ''p'',
                  ConvertResponseToYamlList ''first'' ''m'' (Some sample_kwargs)]\<rparr>)
   \<and> generate_macro_topics (tagging_generator ''other'' ''kwargs'') ''m'' sample_kwargs 2 ''p'' 5
       fresh_world
     = generate_macro_topics (tagging_generator ''no kwargs'' ''kwargs'') ''m'' sample_kwargs 2 ''p'' 5
         fresh_world"
proof -
  note inst_s = conversion_arguments_of_the_two_variants
    [where N = 5 and G = "tagging_generator ''no kwargs'' ''kwargs''" and w = fresh_world
       and model = "''m''" and kw = sample_kwargs and topic = "''Physics''"
       and n = 2 and pt = "''p''"
       and H = "tagging_generator ''no kwargs'' ''other''"
       and r = "''first''" and rest = "[''second'']" and h = "(1, 0)"
       and out = "Inr [''first'', ''m'', ''no kwargs'']" and g' = "(1, 1)"]
  note inst_m = conversion_arguments_of_the_two_variants
    [where N = 5 and G = "tagging_generator ''no kwargs'' ''kwargs''" and w = fresh_world
       and model = "''m''" and kw = sample_kwargs and topic = "''Physics''"
       and n = 2 and pt = "''p''"
       and H = "tagging_generator ''other'' ''kwargs''"
       and r = "''first''" and rest = "[''second'']" and h = "(1, 0)"
       and out = "Inr [''first'', ''m'', ''kwargs'']" and g' = "(1, 1)"]
  have s: "generate_subtopics (tagging_generator ''no kwargs'' ''kwargs'') ''m'' sample_kwargs ''Physics'' 2 ''p'' 5
       fresh_world
     = (Inr [''first'', ''m'', ''no kwargs''],
        \<lparr>gen_state = (1, 1),
         stdout = [],
         calls = [GenerateSubtopics ''m'' sample_kwargs ''Physics'' 2 ''p'',
                  ConvertResponseToYamlList ''first'' ''m'' None]\<rparr>)
   \<and> generate_subtopics (tagging_generator ''no kwargs'' ''other'') ''m'' sample_kwargs ''Physics'' 2 ''p'' 5
       fresh_world
     = generate_subtopics (tagging_generator ''no kwargs'' ''kwargs'') ''m'' sample_kwargs ''Physics'' 2 ''p'' 5
         fresh_world"
    using inst_s
    by (simp add: tagging_generator_def fresh_world_def)
  have m: "generate_macro_topics (tagging_generator ''no kwargs'' ''kwargs'') ''m'' sample_kwargs 2 ''p'' 5
       fresh_world
     = (Inr [''first'', ''m'', ''kwargs''],
        \<lparr>gen_state = (1, 1),
         stdout = [],
         calls = [GenerateMacroTopics 2 ''m'' sample_kwargs ''p'',
                  ConvertResponseToYamlList ''first'' ''m'' (Some sample_kwargs)]\<rparr>)
   \<and> generate_macro_topics (tagging_generator ''other'' ''kwargs'') ''m'' sample_kwargs 2 ''p'' 5
       fresh_world
     = generate_macro_topics (tagging_generator ''no kwargs'' ''kwargs'') ''m'' sample_kwargs 2 ''p'' 5
         fresh_world"
    using inst_m
    by (simp add: tagging_generator_def fresh_world_def)
  show ?thesis
    using s m by blast
qed



text \<open>
  C9. Suppose the \<open>try\<close> blocks of the first \<open>k < n_retries\<close> attempts raise a
  \<open>YamlConversionError\<close>, and on attempt \<open>k\<close> the generation call returns an empty list.
  Then \<open>llm_response[0]\<close> raises \<open>IndexError\<close> and the function ends with it: the result
  is not an empty list, no message is printed for attempt \<open>k\<close>, the conversion is not
  called, and no further attempt is made.
\<close>

theorem empty_response_raises_index_error:
  "(k < nat N
    \<and> g 0 = gen_state w
    \<and> (\<forall>i<k. subtopics_try G model kw topic n pt (g i)
                   = (Inl (YamlConversionError (m i)), g (Suc i), cs i))
    \<and> gen_generate_subtopics G model kw topic n pt (g k) = (Inr [], g')
    \<longrightarrow> generate_subtopics G model kw topic n pt N w
          = (Inl IndexError,
             w\<lparr>gen_state := g',
               calls := calls w @ concat (map cs [0..<k]) @ [GenerateSubtopics model kw topic n pt],
               stdout := stdout w @ map (\<lambda>i. retry_message (m i)) [0..<k]\<rparr>))
   \<and> (k < nat N
    \<and> g 0 = gen_state w
    \<and> (\<forall>i<k. macro_topics_try G model kw n pt (g i)
                   = (Inl (YamlConversionError (m i)), g (Suc i), cs i))
    \<and> gen_generate_macro_topics G n model kw pt (g k) = (Inr [], g')
    \<longrightarrow> generate_macro_topics G model kw n pt N w
          = (Inl IndexError,
             w\<lparr>gen_state := g',
               calls := calls w @ concat (map cs [0..<k]) @ [GenerateMacroTopics n model kw pt],
               stdout := stdout w @ map (\<lambda>i. retry_message (m i)) [0..<k]\<rparr>))"
  (is "(?H1 \<longrightarrow> ?C1) \<and> (?H2 \<longrightarrow> ?C2)")
proof (intro conjI impI)
  assume a: ?H1
  show ?C1
    by (rule subtopics_empty_response
          [OF a [THEN conjunct1]
              a [THEN conjunct2, THEN conjunct1]
              a [THEN conjunct2, THEN conjunct2, THEN conjunct1]
              a [THEN conjunct2, THEN conjunct2, THEN conjunct2]])
next
  assume a: ?H2
  show ?C2
    by (rule macro_topics_empty_response
          [OF a [THEN conjunct1]
              a [THEN conjunct2, THEN conjunct1]
              a [THEN conjunct2, THEN conjunct2, THEN conjunct1]
              a [THEN conjunct2, THEN conjunct2, THEN conjunct2]])
qed

theorem empty_response_raises_index_error_witness:
  "generate_subtopics empty_second_response ''m'' sample_kwargs ''Physics'' 2 ''p'' 5
       fresh_world
     = (Inl IndexError,
        \<lparr>gen_state = (2, 1),
         stdout = [''Hit: bad0, Retrying...''],
         calls = [GenerateSubtopics ''m'' sample_kwargs ''Physics'' 2 ''p'',
                  ConvertResponseToYamlList ''r0'' ''m'' None,
                  GenerateSubtopics ''m'' sample_kwargs ''Physics'' 2 ''p'']\<rparr>)
   \<and> generate_macro_topics empty_second_response ''m'' sample_kwargs 2 ''p'' 5
       fresh_world
     = (Inl IndexError,
        \<lparr>gen_state = (2, 1),
         stdout = [''Hit: bad0, Retrying...''],
         calls = [GenerateMacroTopics 2 ''m'' sample_kwargs ''p'',
                  ConvertResponseToYamlList ''r0'' ''m'' (Some sample_kwargs),
                  GenerateMacroTopics 2 ''m'' sample_kwargs ''p'']\<rparr>)"
proof -
  note inst_s = empty_response_raises_index_error
    [where k = 1 and N = 5 and G = empty_second_response and w = fresh_world
       and model = "''m''" and kw = sample_kwargs and topic = "''Physics''"
       and n = 2 and pt = "''p''"
       and g = "\<lambda>i. (i, i)" and m = "\<lambda>i. ''bad0''"
       and cs = "\<lambda>i. [GenerateSubtopics ''m'' sample_kwargs ''Physics'' 2 ''p'',
                      ConvertResponseToYamlList ''r0'' ''m'' None]"
       and g' = "(2, 1)"]
  note inst_m = empty_response_raises_index_error
    [where k = 1 and N = 5 and G = empty_second_response and w = fresh_world
       and model = "''m''" and kw = sample_kwargs and topic = "''Physics''"
       and n = 2 and pt = "''p''"
       and g = "\<lambda>i. (i, i)" and m = "\<lambda>i. ''bad0''"
       and cs = "\<lambda>i. [GenerateMacroTopics 2 ''m'' sample_kwargs ''p'',
                      ConvertResponseToYamlList ''r0'' ''m'' (Some sample_kwargs)]"
       and g' = "(2, 1)"]
  show ?thesis
    using inst_s inst_m
    by (simp add: empty_second_response_def scripted_generator_def fresh_world_def
          retry_message_def subtopics_try_def macro_topics_try_def)
qed

end
